theory Spec2Isabelle
  imports Complex_Main "HOL-Library.AList" "HOL-Library.Log_Nat"
begin

section \<open>Configuration (utils/Constants.js)\<close>

text \<open>
  The entries of \<^verbatim>\<open>GameConfig\<close> that the simulation core reads. Times are
  milliseconds. A finite JavaScript number is modelled by the rational it denotes.
  The literal \<^verbatim>\<open>0.8\<close> of the success threshold denotes the double nearest to
  \<open>8/10\<close>, which is \<open>3602879701896397 / 2^52\<close>.
\<close>

definition roadCost :: int where
  "roadCost = 1000"

definition maxWaitTime :: rat where
  "maxWaitTime = 10000"

definition carSpeed :: rat where
  "carSpeed = 2000"

definition maxCarsPerType :: nat where
  "maxCarsPerType = 5"

definition successThreshold :: rat where
  "successThreshold = 3602879701896397 / 4503599627370496"

datatype tool = PLACE | DELETE | ARROW

datatype direction = UP | DOWN | LEFT | RIGHT | UP_RIGHT | UP_LEFT | DOWN_RIGHT | DOWN_LEFT

datatype carstates = SPAWNING | MOVING | WAITING | REACHED_EXIT | FAILED

datatype gamestates = BUILDING | SIMULATING | WON | LOST

section \<open>JavaScript numbers\<close>

text \<open>
  JavaScript numbers are IEEE 754 binary64 values. A finite one is modelled by the
  rational it denotes (the two zeros are not told apart); the other values a
  division can produce are kept apart in \<open>jsnum\<close>. A JavaScript division never
  raises: \<open>0 / 0\<close> is \<open>NaN\<close> and \<open>x / 0\<close> is an infinity. Every comparison with
  \<open>NaN\<close> is false.
\<close>

datatype jsnum = Num rat | NaN | PosInfinity | NegInfinity

text \<open>
  The result of a division or a multiplication is the exact result rounded to the
  nearest double, ties to the even significand. \<open>binExp x\<close> is the binary exponent
  of \<open>x\<close>, the \<open>e\<close> with \<open>2^e \<le> |x| < 2^(e+1)\<close>. The doubles around \<open>x\<close> are the
  multiples of \<open>quantum x\<close>: 53 significant bits in the normal range, and multiples of
  \<open>2^(-1074)\<close> below it. A rounded result whose exponent reaches 1024 is an
  infinity.
\<close>

definition binExp :: "rat \<Rightarrow> int" where
  "binExp x =
     (let p = fst (quotient_of \<bar>x\<bar>); q = snd (quotient_of \<bar>x\<bar>); d = bitlen p - bitlen q
      in if 2 powi d \<le> \<bar>x\<bar> then d else d - 1)"

definition roundHalfEven :: "rat \<Rightarrow> int" where
  "roundHalfEven x =
     (let f = \<lfloor>x\<rfloor>; r = x - of_int f
      in if r < 1 / 2 then f else if 1 / 2 < r then f + 1 else if even f then f else f + 1)"

definition quantum :: "rat \<Rightarrow> rat" where
  "quantum x = 2 powi (max (binExp x - 52) (- 1074))"

definition nearestDouble :: "rat \<Rightarrow> rat" where
  "nearestDouble x = of_int (roundHalfEven (x / quantum x)) * quantum x"

definition roundDouble :: "rat \<Rightarrow> jsnum" where
  "roundDouble x =
     (if x = 0 then Num 0
      else (let y = nearestDouble x
            in if 1024 \<le> binExp y then (if 0 < y then PosInfinity else NegInfinity)
               else Num y))"

text \<open>
  Division and multiplication of doubles. The counters of the statistics are
  integers, which are doubles as long as they stay below \<open>2^53\<close>. Only the
  statistics divide and multiply; the additions of millisecond times in the vehicle
  state machine are taken exactly.
\<close>

definition js_div :: "rat \<Rightarrow> rat \<Rightarrow> jsnum" where
  "js_div a b =
     (if b \<noteq> 0 then roundDouble (a / b)
      else if a = 0 then NaN
      else if 0 < a then PosInfinity else NegInfinity)"

fun js_times :: "jsnum \<Rightarrow> rat \<Rightarrow> jsnum" where
  "js_times (Num a) k = roundDouble (a * k)"
| "js_times NaN k = NaN"
| "js_times PosInfinity k = (if k = 0 then NaN else if 0 < k then PosInfinity else NegInfinity)"
| "js_times NegInfinity k = (if k = 0 then NaN else if 0 < k then NegInfinity else PosInfinity)"

fun js_over :: "jsnum \<Rightarrow> rat \<Rightarrow> jsnum" where
  "js_over (Num a) k = js_div a k"
| "js_over NaN k = NaN"
| "js_over PosInfinity k = (if 0 \<le> k then PosInfinity else NegInfinity)"
| "js_over NegInfinity k = (if 0 \<le> k then NegInfinity else PosInfinity)"

fun js_ge :: "jsnum \<Rightarrow> rat \<Rightarrow> bool" where
  "js_ge (Num a) t = (t \<le> a)"
| "js_ge NaN t = False"
| "js_ge PosInfinity t = True"
| "js_ge NegInfinity t = False"

section \<open>Positions, level data and roads\<close>

text \<open>
  A grid key is the string \<^verbatim>\<open>`${row},${col}`\<close> (Helpers.gridKey). The decimal
  rendering of two integers separated by a comma determines both, so a key is
  modelled by the pair itself.
\<close>

type_synonym cell = "int \<times> int"

definition gridKey :: "int \<Rightarrow> int \<Rightarrow> cell" where
  "gridKey r c = (r, c)"

datatype side = SideLeft | SideRight | SideTop | SideBottom

text \<open>
  A position object \<^verbatim>\<open>{row, col, isEntrance, side}\<close>. An object built without the
  flag (as \<^verbatim>\<open>{row, col}\<close>) reads \<^verbatim>\<open>isEntrance\<close> as undefined, which is
  falsy: it is the record with \<open>isEntrance = False\<close>.
\<close>

record position =
  row :: int
  col :: int
  isEntrance :: bool
  side :: "side option"

definition plainPos :: "int \<Rightarrow> int \<Rightarrow> position" where
  "plainPos r c = \<lparr> row = r, col = c, isEntrance = False, side = None \<rparr>"

record cartype =
  color :: string
  entrances :: "position list"
  exit :: position

record level =
  lv_rows :: int
  lv_columns :: int
  lv_cars :: "cartype list"
  uneditableCells :: "cell list"

text \<open>Helpers.isValidGridPosition.\<close>

definition isValidGridPosition :: "int \<Rightarrow> int \<Rightarrow> int \<Rightarrow> int \<Rightarrow> bool" where
  "isValidGridPosition r c maxRows maxCols = (0 \<le> r \<and> r < maxRows \<and> 0 \<le> c \<and> c < maxCols)"

text \<open>Helpers.getAdjacentPositions: up, down, left, right.\<close>

definition getAdjacentPositions :: "int \<Rightarrow> int \<Rightarrow> cell list" where
  "getAdjacentPositions r c = [(r - 1, c), (r + 1, c), (r, c - 1), (r, c + 1)]"

text \<open>
  The road data both road maps hold: the cell and the ordered direction annotations
  (the \<^verbatim>\<open>Road\<close> entity of entities/Cell.js and the plain object of
  \<^verbatim>\<open>GameState.placeRoad\<close>).
\<close>

record road =
  rd_row :: int
  rd_col :: int
  directions :: "direction list"

text \<open>
  A JavaScript \<^verbatim>\<open>Map\<close> keeps its keys in insertion order and holds each key once:
  an association list updated in place.
\<close>

type_synonym roadmap = "(cell \<times> road) list"

section \<open>Statistics and outcome evaluation (managers/CarManager.js)\<close>

record cm_stats =
  totalSpawned :: nat
  totalReachedExit :: nat
  totalFailed :: nat
  spawnedByType :: "(nat \<times> nat) list"
  succeededByType :: "(nat \<times> nat) list"
  failedByType :: "(nat \<times> nat) list"

text \<open>CarManager.getSuccessRate: a percentage; the empty sample is answered before dividing.\<close>

definition getSuccessRate :: "cm_stats \<Rightarrow> jsnum" where
  "getSuccessRate st =
     (let total = totalReachedExit st + totalFailed st in
      if total = 0 then Num 0
      else js_times (js_div (of_nat (totalReachedExit st)) (of_nat total)) 100)"

datatype endtype = EndWon | EndLost

text \<open>
  CarManager.checkEndConditions, given the manager's \<^verbatim>\<open>levelData\<close> (null before a
  level is loaded). The result is the \<^verbatim>\<open>type\<close> of the returned object, or
  \<open>None\<close> for null; the \<^verbatim>\<open>reason\<close> text is formatting only.
\<close>

definition checkEndConditions :: "level option \<Rightarrow> cm_stats \<Rightarrow> endtype option" where
  "checkEndConditions levelData st =
     (let totalCars = totalReachedExit st + totalFailed st;
          minCarsToCheck = (case levelData of Some lv \<Rightarrow> length (lv_cars lv) * 3 | None \<Rightarrow> 10)
      in if minCarsToCheck \<le> totalCars then
           (let successRate = js_over (getSuccessRate st) 100 in
            if js_ge successRate successThreshold then Some EndWon
            else if totalReachedExit st < totalFailed st then Some EndLost
            else None)
         else None)"

section \<open>Game state (GameState)\<close>

type_synonym carid = nat

record gs_stats =
  carsSpawned :: nat
  carsReachedExit :: nat
  carsFailed :: nat
  simulationStartTime :: "rat option"
  simulationEndTime :: "rat option"

text \<open>The events \<^verbatim>\<open>GameState.emit\<close> sends, with the payload the core reads.\<close>

datatype gs_event =
    BudgetChanged int
  | RoadPlaced int int
  | RoadRemoved int int
  | RoadDirectionsUpdated int int "direction list"
  | CarAdded carid
  | CarRemoved carid
  | SimulationStarted
  | SimulationStopped
  | LevelWon jsnum
  | LevelLost jsnum
  | CellSelected "cell option"
  | CellHovered "cell option"

text \<open>
  The fields of the shared game-state object. \<open>gs_cars\<close> lists the ids of the car
  objects in the \<^verbatim>\<open>cars\<close> array, \<open>emitted\<close> is the sequence of events emitted so
  far (newest last).
\<close>

record game_state =
  budget :: int
  currentTool :: tool
  gameState :: gamestates
  isSimulating :: bool
  gs_level :: "level option"
  levelName :: "string option"
  gridDimensions :: "int \<times> int"
  gs_roads :: roadmap
  gs_cars :: "carid list"
  activeCars :: "carid list"
  selectedCell :: "cell option"
  hoveredCell :: "cell option"
  isDeleteMode :: bool
  gs_stats :: gs_stats
  pathfindingGridDirty :: bool
  emitted :: "gs_event list"

definition emit :: "gs_event \<Rightarrow> game_state \<Rightarrow> game_state" where
  "emit e gs = gs\<lparr> emitted := emitted gs @ [e] \<rparr>"

definition canAfford :: "game_state \<Rightarrow> int \<Rightarrow> bool" where
  "canAfford gs cost = (cost \<le> budget gs)"

definition spendBudget :: "game_state \<Rightarrow> int \<Rightarrow> bool \<times> game_state" where
  "spendBudget gs amount =
     (if \<not> canAfford gs amount then (False, gs)
      else (True, emit (BudgetChanged (budget gs - amount)) (gs\<lparr> budget := budget gs - amount \<rparr>)))"

definition addBudget :: "game_state \<Rightarrow> int \<Rightarrow> game_state" where
  "addBudget gs amount = emit (BudgetChanged (budget gs + amount)) (gs\<lparr> budget := budget gs + amount \<rparr>)"

definition hasRoad :: "game_state \<Rightarrow> int \<Rightarrow> int \<Rightarrow> bool" where
  "hasRoad gs r c = (map_of (gs_roads gs) (gridKey r c) \<noteq> None)"

definition getRoad :: "game_state \<Rightarrow> int \<Rightarrow> int \<Rightarrow> road option" where
  "getRoad gs r c = map_of (gs_roads gs) (gridKey r c)"

text \<open>
  The \<^verbatim>\<open>roadData\<close> argument of placeRoad is spread over the new road object and so
  may override any of its three fields; the input layer passes the empty object.
\<close>

record roaddata =
  data_row :: "int option"
  data_col :: "int option"
  data_directions :: "direction list option"

definition emptyRoadData :: roaddata where
  "emptyRoadData = \<lparr> data_row = None, data_col = None, data_directions = None \<rparr>"

definition newRoad :: "int \<Rightarrow> int \<Rightarrow> roaddata \<Rightarrow> road" where
  "newRoad r c d =
     \<lparr> rd_row = (case data_row d of Some x \<Rightarrow> x | None \<Rightarrow> r),
       rd_col = (case data_col d of Some x \<Rightarrow> x | None \<Rightarrow> c),
       directions = (case data_directions d of Some x \<Rightarrow> x | None \<Rightarrow> []) \<rparr>"

definition placeRoad :: "game_state \<Rightarrow> int \<Rightarrow> int \<Rightarrow> roaddata \<Rightarrow> bool \<times> game_state" where
  "placeRoad gs r c d =
     (if isSimulating gs then (False, gs)
      else if \<not> canAfford gs roadCost then (False, gs)
      else if map_of (gs_roads gs) (gridKey r c) \<noteq> None then (False, gs)
      else (case spendBudget gs roadCost of
              (True, gs1) \<Rightarrow>
                (True, emit (RoadPlaced r c)
                   (gs1\<lparr> gs_roads := AList.update (gridKey r c) (newRoad r c d) (gs_roads gs1),
                         pathfindingGridDirty := True \<rparr>))
            | (False, gs1) \<Rightarrow> (False, gs1)))"

definition removeRoad :: "game_state \<Rightarrow> int \<Rightarrow> int \<Rightarrow> bool \<times> game_state" where
  "removeRoad gs r c =
     (if isSimulating gs then (False, gs)
      else (case map_of (gs_roads gs) (gridKey r c) of
              None \<Rightarrow> (False, gs)
            | Some rd \<Rightarrow>
                (True, emit (RoadRemoved r c)
                   ((addBudget (gs\<lparr> gs_roads := AList.delete (gridKey r c) (gs_roads gs) \<rparr>) roadCost)
                      \<lparr> pathfindingGridDirty := True \<rparr>))))"

definition updateRoadDirections :: "game_state \<Rightarrow> int \<Rightarrow> int \<Rightarrow> direction list \<Rightarrow> bool \<times> game_state" where
  "updateRoadDirections gs r c ds =
     (case getRoad gs r c of
        None \<Rightarrow> (False, gs)
      | Some rd \<Rightarrow>
          (True, emit (RoadDirectionsUpdated r c ds)
             (gs\<lparr> gs_roads := AList.update (gridKey r c) (rd\<lparr> directions := ds \<rparr>) (gs_roads gs),
                   pathfindingGridDirty := True \<rparr>)))"

definition resetStats :: "game_state \<Rightarrow> game_state" where
  "resetStats gs =
     gs\<lparr> gs_stats := \<lparr> carsSpawned = 0, carsReachedExit = 0, carsFailed = 0,
                        simulationStartTime = None, simulationEndTime = None \<rparr> \<rparr>"

text \<open>GameState.startSimulation; \<open>now\<close> is the reading of \<^verbatim>\<open>Date.now()\<close>.\<close>

definition startSimulation :: "game_state \<Rightarrow> rat \<Rightarrow> bool \<times> game_state" where
  "startSimulation gs now =
     (if isSimulating gs then (False, gs)
      else if length (gs_roads gs) = 0 then (False, gs)
      else (let gs1 = resetStats (gs\<lparr> isSimulating := True, gameState := SIMULATING \<rparr>);
                gs2 = gs1\<lparr> gs_stats := (gs_stats gs1)\<lparr> simulationStartTime := Some now \<rparr> \<rparr>
            in (True, emit SimulationStarted gs2)))"

definition stopSimulation :: "game_state \<Rightarrow> rat \<Rightarrow> game_state" where
  "stopSimulation gs now =
     (if \<not> isSimulating gs then gs
      else (let gs1 = gs\<lparr> isSimulating := False, gameState := BUILDING,
                          gs_stats := (gs_stats gs)\<lparr> simulationEndTime := Some now \<rparr> \<rparr>;
                gs2 = fold (\<lambda>i. emit (CarRemoved i)) (gs_cars gs1) gs1
            in emit SimulationStopped (gs2\<lparr> gs_cars := [], activeCars := [] \<rparr>)))"

text \<open>
  GameState.checkGameEndConditions. Reading \<^verbatim>\<open>this.level.cars\<close> of a null level
  throws: the result \<open>None\<close>.
\<close>

definition checkGameEndConditions :: "game_state \<Rightarrow> rat \<Rightarrow> game_state option" where
  "checkGameEndConditions gs now =
     (if \<not> isSimulating gs then Some gs
      else (case gs_level gs of
              None \<Rightarrow> None
            | Some lv \<Rightarrow>
                (let totalCars = carsReachedExit (gs_stats gs) + carsFailed (gs_stats gs);
                     minCarsToCheck = length (lv_cars lv) * 2
                 in if minCarsToCheck \<le> totalCars then
                      (let successRate = js_div (of_nat (carsReachedExit (gs_stats gs))) (of_nat totalCars) in
                       if js_ge successRate successThreshold then
                         Some (emit (LevelWon successRate) (stopSimulation (gs\<lparr> gameState := WON \<rparr>) now))
                       else if carsReachedExit (gs_stats gs) < carsFailed (gs_stats gs) then
                         Some (emit (LevelLost successRate) (stopSimulation (gs\<lparr> gameState := LOST \<rparr>) now))
                       else Some gs)
                    else Some gs)))"

definition markPathfindingGridClean :: "game_state \<Rightarrow> game_state" where
  "markPathfindingGridClean gs = gs\<lparr> pathfindingGridDirty := False \<rparr>"

definition setSelectedCell :: "game_state \<Rightarrow> cell option \<Rightarrow> game_state" where
  "setSelectedCell gs c = emit (CellSelected c) (gs\<lparr> selectedCell := c \<rparr>)"

definition setHoveredCell :: "game_state \<Rightarrow> cell option \<Rightarrow> game_state" where
  "setHoveredCell gs c = emit (CellHovered c) (gs\<lparr> hoveredCell := c \<rparr>)"

text \<open>GameState.addCar, for the car object with the given id.\<close>

definition gs_addCar :: "game_state \<Rightarrow> carid \<Rightarrow> game_state" where
  "gs_addCar gs i =
     emit (CarAdded i)
       (gs\<lparr> gs_cars := gs_cars gs @ [i],
             activeCars := (if List.member (activeCars gs) i then activeCars gs else activeCars gs @ [i]),
             gs_stats := (gs_stats gs)\<lparr> carsSpawned := carsSpawned (gs_stats gs) + 1 \<rparr> \<rparr>)"

section \<open>The grid and the finder of the path library\<close>

text \<open>
  The pathfinder drives the third-party library PathFinding.js (the global \<^verbatim>\<open>PF\<close>),
  which is not part of the repository. Its \<^verbatim>\<open>PF.Grid\<close> is a width by height
  matrix of nodes, each with a walkable flag; nodes are addressed as \<open>(x, y)\<close> with
  \<open>x\<close> the column and \<open>y\<close> the row. A new grid has every node walkable.
\<close>

record pfgrid =
  g_width :: int
  g_height :: int
  g_walkable :: "int \<times> int \<Rightarrow> bool"

definition newGrid :: "int \<Rightarrow> int \<Rightarrow> pfgrid" where
  "newGrid width height = \<lparr> g_width = width, g_height = height, g_walkable = (\<lambda>n. True) \<rparr>"

definition isInside :: "pfgrid \<Rightarrow> int \<Rightarrow> int \<Rightarrow> bool" where
  "isInside g x y = (0 \<le> x \<and> x < g_width g \<and> 0 \<le> y \<and> y < g_height g)"

definition isWalkableAt :: "pfgrid \<Rightarrow> int \<Rightarrow> int \<Rightarrow> bool" where
  "isWalkableAt g x y = (isInside g x y \<and> g_walkable g (x, y))"

text \<open>The pathfinder calls \<^verbatim>\<open>setWalkableAt\<close> on nodes inside the grid only.\<close>

definition setWalkableAt :: "pfgrid \<Rightarrow> int \<Rightarrow> int \<Rightarrow> bool \<Rightarrow> pfgrid" where
  "setWalkableAt g x y b = g\<lparr> g_walkable := (g_walkable g)((x, y) := b) \<rparr>"

text \<open>\<^verbatim>\<open>Grid.getNeighbors\<close> without diagonal movement: up, right, down, left.\<close>

definition getNeighbors :: "pfgrid \<Rightarrow> int \<times> int \<Rightarrow> (int \<times> int) list" where
  "getNeighbors g n =
     (case n of (x, y) \<Rightarrow>
        filter (\<lambda>(a, b). isWalkableAt g a b) [(x, y - 1), (x + 1, y), (x, y + 1), (x - 1, y)])"

text \<open>
  The finder is \<^verbatim>\<open>PF.AStarFinder\<close> with no diagonal movement, the Manhattan
  heuristic and weight 1. On a grid whose steps all cost 1 it returns a shortest path
  of walkable nodes from start to end, both included, or the empty array when there
  is none. It is modelled by a breadth-first search that expands each node once, in
  the neighbour order above; the queue holds the paths found so far, newest node
  first. The number of expansions is bounded by the number of nodes plus one, which
  is the fuel \<open>AStarFinder_findPath\<close> gives it. Where several shortest paths exist
  the library may return another one of them.
\<close>

fun search :: "nat \<Rightarrow> pfgrid \<Rightarrow> int \<times> int \<Rightarrow> (int \<times> int) list \<Rightarrow> (int \<times> int) list list
    \<Rightarrow> (int \<times> int) list" where
  "search 0 g goal seen queue = []"
| "search (Suc n) g goal seen [] = []"
| "search (Suc n) g goal seen ([] # queue) = search n g goal seen queue"
| "search (Suc n) g goal seen ((c # p) # queue) =
     (if c = goal then rev (c # p)
      else (let ns = filter (\<lambda>m. m \<notin> set seen) (getNeighbors g c)
            in search n g goal (seen @ ns) (queue @ map (\<lambda>m. m # c # p) ns)))"

definition AStarFinder_findPath :: "int \<Rightarrow> int \<Rightarrow> int \<Rightarrow> int \<Rightarrow> pfgrid \<Rightarrow> (int \<times> int) list" where
  "AStarFinder_findPath startX startY endX endY g =
     search (Suc (nat (g_width g * g_height g))) g (endX, endY) [(startX, startY)] [[(startX, startY)]]"

section \<open>The pathfinder (PathFinder)\<close>

record path_finder =
  pf_grid :: "pfgrid option"
  gridWidth :: int
  gridHeight :: int

text \<open>The state the constructor leaves: no grid yet, the finder created.\<close>

definition newPathFinder :: path_finder where
  "newPathFinder = \<lparr> pf_grid = None, gridWidth = 0, gridHeight = 0 \<rparr>"

text \<open>The two nested loops that block every node, row by row.\<close>

definition blockAll :: "int \<Rightarrow> int \<Rightarrow> pfgrid \<Rightarrow> pfgrid" where
  "blockAll width height g =
     fold (\<lambda>y. fold (\<lambda>x g'. setWalkableAt g' x y False) [0..width - 1]) [0..height - 1] g"

definition initializeGrid :: "path_finder \<Rightarrow> int \<Rightarrow> int \<Rightarrow> path_finder" where
  "initializeGrid pf width height =
     pf\<lparr> gridWidth := width, gridHeight := height,
         pf_grid := Some (blockAll width height (newGrid width height)) \<rparr>"

text \<open>
  PathFinder.updateGrid. A road key is split back into its row and column. The
  directions stored on a road are not read.
\<close>

definition updateGrid :: "path_finder \<Rightarrow> roadmap \<Rightarrow> cell list option \<Rightarrow> int \<Rightarrow> int \<Rightarrow> path_finder" where
  "updateGrid pf roads obstacles gridRows gridCols =
     (let pf1 = (if gridWidth pf \<noteq> gridCols \<or> gridHeight pf \<noteq> gridRows
                 then initializeGrid pf gridCols gridRows else pf);
          pf2 = (if pf_grid pf1 = None then initializeGrid pf1 gridCols gridRows else pf1)
      in case pf_grid pf2 of
           None \<Rightarrow> pf2
         | Some g \<Rightarrow>
             (let g1 = blockAll (gridWidth pf2) (gridHeight pf2) g;
                  g2 = fold (\<lambda>(k, rd) g'. case k of (r, c) \<Rightarrow>
                               if isValidGridPosition r c gridRows gridCols
                               then setWalkableAt g' c r True else g') roads g1;
                  g3 = (case obstacles of
                          None \<Rightarrow> g2
                        | Some obs \<Rightarrow>
                            fold (\<lambda>(r, c) g'.
                                    if isValidGridPosition r c gridRows gridCols
                                    then setWalkableAt g' c r False else g') obs g2)
              in pf2\<lparr> pf_grid := Some g3 \<rparr>))"

text \<open>PathFinder.findPath: null is \<open>None\<close>; the path is a list of \<^verbatim>\<open>{row, col}\<close>.\<close>

definition findPath :: "path_finder \<Rightarrow> int \<Rightarrow> int \<Rightarrow> int \<Rightarrow> int \<Rightarrow> position list option" where
  "findPath pf startRow startCol endRow endCol =
     (case pf_grid pf of
        None \<Rightarrow> None
      | Some g \<Rightarrow>
          if \<not> isValidGridPosition startRow startCol (gridHeight pf) (gridWidth pf)
             \<or> \<not> isValidGridPosition endRow endCol (gridHeight pf) (gridWidth pf) then None
          else if \<not> isWalkableAt g startCol startRow then None
          else if \<not> isWalkableAt g endCol endRow then None
          else (let path = AStarFinder_findPath startCol startRow endCol endRow g
                in if path \<noteq> [] then Some (map (\<lambda>(x, y). plainPos y x) path) else None))"

text \<open>The test \<^verbatim>\<open>this.grid && this.grid.isWalkableAt(col, row)\<close>.\<close>

definition gridWalkable :: "path_finder \<Rightarrow> int \<Rightarrow> int \<Rightarrow> bool" where
  "gridWalkable pf r c = (case pf_grid pf of None \<Rightarrow> False | Some g \<Rightarrow> isWalkableAt g c r)"

text \<open>
  The offsets \<open>(deltaRow, deltaCol)\<close> the search visits at one radius: the border of
  the square of that radius, rows ascending and columns ascending within a row.
\<close>

definition ring :: "int \<Rightarrow> (int \<times> int) list" where
  "ring radius =
     filter (\<lambda>(dr, dc). \<bar>dr\<bar> = radius \<or> \<bar>dc\<bar> = radius)
       (concat (map (\<lambda>dr. map (\<lambda>dc. (dr, dc)) [- radius..radius]) [- radius..radius]))"

text \<open>
  PathFinder.findNearestValidPosition: the position itself when it is inside and
  walkable, else the first inside walkable cell met on the rings of radius
  \<open>1, 2, ..., max gridRows gridCols\<close>.
\<close>

definition findNearestValidPosition :: "path_finder \<Rightarrow> position \<Rightarrow> int \<Rightarrow> int \<Rightarrow> position option" where
  "findNearestValidPosition pf p gridRows gridCols =
     (if isValidGridPosition (row p) (col p) gridRows gridCols \<and> gridWalkable pf (row p) (col p)
      then Some (plainPos (row p) (col p))
      else (case find (\<lambda>(r, c). isValidGridPosition r c gridRows gridCols \<and> gridWalkable pf r c)
                   (concat (map (\<lambda>radius. map (\<lambda>(dr, dc). (row p + dr, col p + dc)) (ring radius))
                              [1..max gridRows gridCols])) of
              None \<Rightarrow> None
            | Some (r, c) \<Rightarrow> Some (plainPos r c)))"

definition findPathWithEntrances :: "path_finder \<Rightarrow> position \<Rightarrow> position \<Rightarrow> int \<Rightarrow> int \<Rightarrow> position list option" where
  "findPathWithEntrances pf start endPos gridRows gridCols =
     (case (if isEntrance start then findNearestValidPosition pf start gridRows gridCols else Some start) of
        None \<Rightarrow> None
      | Some actualStart \<Rightarrow>
          (case (if isEntrance endPos then findNearestValidPosition pf endPos gridRows gridCols else Some endPos) of
             None \<Rightarrow> None
           | Some actualEnd \<Rightarrow>
               findPath pf (row actualStart) (col actualStart) (row actualEnd) (col actualEnd)))"

section \<open>Direction annotations of a road (Road in entities/Cell.js)\<close>

definition getPositionInDirection :: "road \<Rightarrow> direction \<Rightarrow> cell option" where
  "getPositionInDirection rd d =
     (case d of
        UP \<Rightarrow> Some (rd_row rd - 1, rd_col rd)
      | DOWN \<Rightarrow> Some (rd_row rd + 1, rd_col rd)
      | LEFT \<Rightarrow> Some (rd_row rd, rd_col rd - 1)
      | RIGHT \<Rightarrow> Some (rd_row rd, rd_col rd + 1)
      | _ \<Rightarrow> None)"

definition getDirectionToPosition :: "road \<Rightarrow> int \<Rightarrow> int \<Rightarrow> direction option" where
  "getDirectionToPosition rd targetRow targetCol =
     (let deltaRow = targetRow - rd_row rd; deltaCol = targetCol - rd_col rd in
      if deltaRow = - 1 \<and> deltaCol = 0 then Some UP
      else if deltaRow = 1 \<and> deltaCol = 0 then Some DOWN
      else if deltaRow = 0 \<and> deltaCol = - 1 then Some LEFT
      else if deltaRow = 0 \<and> deltaCol = 1 then Some RIGHT
      else None)"

text \<open>Road.getPathfindingConnections: the cells a road connects to, each with its direction.\<close>

definition getPathfindingConnections :: "road \<Rightarrow> (int \<times> int \<times> direction option) list" where
  "getPathfindingConnections rd =
     (if length (directions rd) = 0
      then map (\<lambda>(r, c). (r, c, getDirectionToPosition rd r c)) (getAdjacentPositions (rd_row rd) (rd_col rd))
      else concat (map (\<lambda>d. case getPositionInDirection rd d of
                               Some (r, c) \<Rightarrow> [(r, c, Some d)]
                             | None \<Rightarrow> []) (directions rd)))"

section \<open>Vehicles (Car)\<close>

text \<open>
  The fields of a car object. \<open>currentTween\<close> holds the target cell of the movement
  tween while one is running. \<open>spawnTime\<close> is a reading of \<^verbatim>\<open>Date.now()\<close>;
  \<open>lastMoveTime\<close> is the scene time of the last update.
\<close>

record car =
  car_id :: carid
  car_color :: string
  gridRow :: int
  gridCol :: int
  spawnPosition :: position
  targetPosition :: position
  path :: "position list"
  pathIndex :: nat
  hasPath :: bool
  needsNewPath :: bool
  isMoving :: bool
  currentTween :: "position option"
  state :: carstates
  waitTime :: rat
  totalWaitTime :: rat
  lastMoveTime :: rat
  spawnTime :: rat
  blockedBy :: "carid option"
  isBlocked :: bool

text \<open>The constructor; the id comes from \<^verbatim>\<open>generateId()\<close>.\<close>

definition newCar :: "carid \<Rightarrow> cartype \<Rightarrow> position \<Rightarrow> position \<Rightarrow> rat \<Rightarrow> car" where
  "newCar i carData spawnPos targetPos now =
     \<lparr> car_id = i, car_color = color carData,
       gridRow = row spawnPos, gridCol = col spawnPos,
       spawnPosition = spawnPos, targetPosition = targetPos,
       path = [], pathIndex = 0, hasPath = False, needsNewPath = True,
       isMoving = False, currentTween = None, state = SPAWNING,
       waitTime = 0, totalWaitTime = 0, lastMoveTime = 0, spawnTime = now,
       blockedBy = None, isBlocked = False \<rparr>"

text \<open>Car.setPath; a null path is \<open>None\<close>.\<close>

definition setPath :: "position list option \<Rightarrow> car \<Rightarrow> car" where
  "setPath p c =
     (case p of
        Some ps \<Rightarrow>
          if 0 < length ps
          then c\<lparr> path := ps, pathIndex := 0, hasPath := True, state := MOVING \<rparr>
          else c\<lparr> path := [], pathIndex := 0, hasPath := False, state := WAITING \<rparr>
      | None \<Rightarrow> c\<lparr> path := [], pathIndex := 0, hasPath := False, state := WAITING \<rparr>)"

definition isNearTarget :: "car \<Rightarrow> bool" where
  "isNearTarget c =
     (if isEntrance (targetPosition c)
      then \<bar>gridRow c - row (targetPosition c)\<bar> + \<bar>gridCol c - col (targetPosition c)\<bar> \<le> 1
      else False)"

definition isTerminal :: "car \<Rightarrow> bool" where
  "isTerminal c = (state c = REACHED_EXIT \<or> state c = FAILED)"

section \<open>The scheduler (CarManager) and the objects it works on\<close>

text \<open>
  The objects the scheduler is wired to: the game state, the grid manager's road
  map, level data and dimensions, the pathfinder, and the scheduler's own fields.
  Car objects are shared between the scheduler and the game state, so they live in
  a store \<open>objects\<close> addressed by car id; \<open>cm_cars\<close> lists the keys of the
  scheduler's \<^verbatim>\<open>cars\<close> map in insertion order. \<open>carsByPosition\<close> is the occupancy
  index, a set of ids per cell key. \<open>spawnTimers\<close> holds the car type indices with a
  pending spawn timer, \<open>removalTimers\<close> the cars with a pending delayed removal.
  \<open>inputEnabled\<close> is the scene's input switch.
\<close>

record world =
  w_gs :: game_state
  gm_roads :: roadmap
  gm_levelData :: "level option"
  gm_rows :: int
  gm_columns :: int
  pathFinder :: path_finder
  inputEnabled :: bool
  cm_levelData :: "level option"
  isSpawning :: bool
  spawnTimers :: "nat list"
  removalTimers :: "carid list"
  cm_cars :: "carid list"
  carsByPosition :: "(cell \<times> carid list) list"
  w_stats :: cm_stats
  objects :: "carid \<Rightarrow> car option"

definition withCar :: "carid \<Rightarrow> (car \<Rightarrow> car) \<Rightarrow> world \<Rightarrow> world" where
  "withCar i f w =
     (case objects w i of None \<Rightarrow> w | Some c \<Rightarrow> w\<lparr> objects := (objects w)(i \<mapsto> f c) \<rparr>)"

definition removeCarFromPosition :: "world \<Rightarrow> carid \<Rightarrow> world" where
  "removeCarFromPosition w i =
     (case objects w i of
        None \<Rightarrow> w
      | Some c \<Rightarrow>
          (let oldPosKey = gridKey (gridRow c) (gridCol c) in
           case map_of (carsByPosition w) oldPosKey of
             None \<Rightarrow> w
           | Some oldPosSet \<Rightarrow>
               (let remaining = removeAll i oldPosSet in
                if length remaining = 0
                then w\<lparr> carsByPosition := AList.delete oldPosKey (carsByPosition w) \<rparr>
                else w\<lparr> carsByPosition := AList.update oldPosKey remaining (carsByPosition w) \<rparr>)))"

definition updateCarPosition :: "world \<Rightarrow> carid \<Rightarrow> int \<Rightarrow> int \<Rightarrow> world" where
  "updateCarPosition w i r c =
     (let w1 = removeCarFromPosition w i;
          posKey = gridKey r c;
          here = (case map_of (carsByPosition w1) posKey of None \<Rightarrow> [] | Some ids \<Rightarrow> ids);
          w2 = w1\<lparr> carsByPosition :=
                     AList.update posKey (if List.member here i then here else here @ [i])
                       (carsByPosition w1) \<rparr>
      in withCar i (\<lambda>car. car\<lparr> gridRow := r, gridCol := c \<rparr>) w2)"

definition isPositionOccupied :: "world \<Rightarrow> int \<Rightarrow> int \<Rightarrow> bool" where
  "isPositionOccupied w r c =
     (case map_of (carsByPosition w) (gridKey r c) of
        None \<Rightarrow> False
      | Some ids \<Rightarrow> 0 < length ids)"

text \<open>CarManager.getCarsAtPosition: the ids at the cell that are still keys of the cars map.\<close>

definition getCarsAtPosition :: "world \<Rightarrow> int \<Rightarrow> int \<Rightarrow> carid list" where
  "getCarsAtPosition w r c =
     (case map_of (carsByPosition w) (gridKey r c) of
        None \<Rightarrow> []
      | Some ids \<Rightarrow> filter (\<lambda>i. List.member (cm_cars w) i \<and> objects w i \<noteq> None) ids)"

text \<open>
  CarManager.handleCollisionCheck, the listener of the collision-check event: it
  answers whether another car is recorded at the target cell and, if so, notes the
  first such car on the requester.
\<close>

definition handleCollisionCheck :: "world \<Rightarrow> carid \<Rightarrow> position \<Rightarrow> bool \<times> world" where
  "handleCollisionCheck w i targetCell =
     (let carsAtTarget = getCarsAtPosition w (row targetCell) (col targetCell);
          otherCars = filter (\<lambda>j. j \<noteq> i) carsAtTarget
      in case otherCars of
           [] \<Rightarrow> (False, w)
         | j # _ \<Rightarrow> (True, withCar i (\<lambda>car. car\<lparr> blockedBy := Some j \<rparr>) w))"

text \<open>
  Car.checkCollision emits the collision-check event, which runs the listener above,
  drops what the emit call returns and answers false.
\<close>

definition checkCollision :: "world \<Rightarrow> carid \<Rightarrow> position \<Rightarrow> bool \<times> world" where
  "checkCollision w i targetCell = (False, snd (handleCollisionCheck w i targetCell))"

definition updatePathfindingGrid :: "world \<Rightarrow> world" where
  "updatePathfindingGrid w =
     (let roads = gm_roads w;
          obstacles = (case gm_levelData w of Some lv \<Rightarrow> uneditableCells lv | None \<Rightarrow> [])
      in w\<lparr> pathFinder := updateGrid (pathFinder w) roads (Some obstacles) (gm_rows w) (gm_columns w),
            w_gs := markPathfindingGridClean (w_gs w) \<rparr>)"

text \<open>The part of CarManager.handlePathRequest before the path is handed to the car.\<close>

definition pathRequest :: "world \<Rightarrow> position \<Rightarrow> position \<Rightarrow> position list option \<times> world" where
  "pathRequest w start endPos =
     (let w1 = (if pathfindingGridDirty (w_gs w) then updatePathfindingGrid w else w)
      in (findPathWithEntrances (pathFinder w1) start endPos (gm_rows w1) (gm_columns w1), w1))"

definition handlePathRequest :: "world \<Rightarrow> carid \<Rightarrow> position \<Rightarrow> position \<Rightarrow> world" where
  "handlePathRequest w i start endPos =
     (case pathRequest w start endPos of (p, w1) \<Rightarrow> withCar i (setPath p) w1)"

text \<open>
  CarManager.requestPathForCar; the id it adds to the awaiting set is deleted again
  before it returns, so the set is not modelled.
\<close>

definition requestPathForCar :: "world \<Rightarrow> carid \<Rightarrow> world" where
  "requestPathForCar w i =
     (case objects w i of
        None \<Rightarrow> w
      | Some c \<Rightarrow> handlePathRequest w i (spawnPosition c) (targetPosition c))"

definition addCar :: "world \<Rightarrow> carid \<Rightarrow> world" where
  "addCar w i =
     (case objects w i of
        None \<Rightarrow> w
      | Some c \<Rightarrow>
          (let w1 = w\<lparr> cm_cars := (if List.member (cm_cars w) i then cm_cars w else cm_cars w @ [i]) \<rparr>;
               w2 = updateCarPosition w1 i (gridRow c) (gridCol c)
           in requestPathForCar w2 i))"

definition bump :: "nat \<Rightarrow> (nat \<times> nat) list \<Rightarrow> (nat \<times> nat) list" where
  "bump k m = AList.update k ((case map_of m k of Some n \<Rightarrow> n | None \<Rightarrow> 0) + 1) m"

text \<open>
  CarManager.spawnCar. \<open>k\<close> is the entrance drawn at random, \<open>newId\<close> the generated
  id and \<open>now\<close> the clock reading; a spawn timer exists only for a car type of the
  level, and the draw is an index of its entrances.
\<close>

definition spawnCar :: "world \<Rightarrow> nat \<Rightarrow> nat \<Rightarrow> carid \<Rightarrow> rat \<Rightarrow> world" where
  "spawnCar w carTypeIndex k newId now =
     (if \<not> isSpawning w then w
      else (case cm_levelData w of
              None \<Rightarrow> w
            | Some lv \<Rightarrow>
                if carTypeIndex < length (lv_cars lv) \<and> k < length (entrances (lv_cars lv ! carTypeIndex)) then
                  (let carType = lv_cars lv ! carTypeIndex;
                       entrance = entrances carType ! k
                   in if isPositionOccupied w (row entrance) (col entrance) then w
                      else (let w1 = w\<lparr> objects := (objects w)(newId \<mapsto> newCar newId carType entrance (exit carType) now) \<rparr>;
                                w2 = addCar w1 newId;
                                w3 = w2\<lparr> w_stats := (w_stats w2)\<lparr> totalSpawned := totalSpawned (w_stats w2) + 1,
                                                               spawnedByType := bump carTypeIndex (spawnedByType (w_stats w2)) \<rparr> \<rparr>
                            in w3\<lparr> w_gs := gs_addCar (w_gs w3) newId \<rparr>))
                else w))"

definition scheduleCarSpawn :: "world \<Rightarrow> nat \<Rightarrow> world" where
  "scheduleCarSpawn w carTypeIndex =
     (if \<not> isSpawning w then w
      else if maxCarsPerType \<le> (case map_of (spawnedByType (w_stats w)) carTypeIndex of Some n \<Rightarrow> n | None \<Rightarrow> 0)
      then w
      else w\<lparr> spawnTimers := (if List.member (spawnTimers w) carTypeIndex then spawnTimers w
                               else spawnTimers w @ [carTypeIndex]) \<rparr>)"

text \<open>A spawn timer fires: its callback spawns a car and schedules the next spawn.\<close>

definition spawnTimerFires :: "world \<Rightarrow> nat \<Rightarrow> nat \<Rightarrow> carid \<Rightarrow> rat \<Rightarrow> world" where
  "spawnTimerFires w carTypeIndex k newId now =
     (if List.member (spawnTimers w) carTypeIndex
      then scheduleCarSpawn
             (spawnCar (w\<lparr> spawnTimers := removeAll carTypeIndex (spawnTimers w) \<rparr>) carTypeIndex k newId now)
             carTypeIndex
      else w)"

text \<open>CarManager.findCarTypeIndex: \<open>None\<close> stands for \<open>-1\<close>.\<close>

fun findIndex :: "('a \<Rightarrow> bool) \<Rightarrow> 'a list \<Rightarrow> nat option" where
  "findIndex P [] = None"
| "findIndex P (x # xs) = (if P x then Some 0 else map_option Suc (findIndex P xs))"

definition findCarTypeIndex :: "world \<Rightarrow> string \<Rightarrow> nat option" where
  "findCarTypeIndex w col' =
     (case cm_levelData w of
        None \<Rightarrow> None
      | Some lv \<Rightarrow> findIndex (\<lambda>carType. color carType = col') (lv_cars lv))"

definition handleCarReachedExit :: "world \<Rightarrow> carid \<Rightarrow> world" where
  "handleCarReachedExit w i =
     (case objects w i of
        None \<Rightarrow> w
      | Some c \<Rightarrow>
          (let st1 = (w_stats w)\<lparr> totalReachedExit := totalReachedExit (w_stats w) + 1 \<rparr>;
               st2 = (case findCarTypeIndex w (car_color c) of
                        Some t \<Rightarrow> st1\<lparr> succeededByType := bump t (succeededByType st1) \<rparr>
                      | None \<Rightarrow> st1)
           in w\<lparr> w_stats := st2, removalTimers := removalTimers w @ [i] \<rparr>))"

definition handleCarFailed :: "world \<Rightarrow> carid \<Rightarrow> world" where
  "handleCarFailed w i =
     (case objects w i of
        None \<Rightarrow> w
      | Some c \<Rightarrow>
          (let st1 = (w_stats w)\<lparr> totalFailed := totalFailed (w_stats w) + 1 \<rparr>;
               st2 = (case findCarTypeIndex w (car_color c) of
                        Some t \<Rightarrow> st1\<lparr> failedByType := bump t (failedByType st1) \<rparr>
                      | None \<Rightarrow> st1)
           in w\<lparr> w_stats := st2, removalTimers := removalTimers w @ [i] \<rparr>))"

section \<open>The vehicle state machine (Car.update)\<close>

text \<open>
  The methods of a car run against the objects above, because the events a car
  emits are handled at once by the scheduler's listeners, which may change the car.
\<close>

definition reachDestination :: "world \<Rightarrow> carid \<Rightarrow> world" where
  "reachDestination w i =
     handleCarReachedExit
       (withCar i (\<lambda>c. c\<lparr> state := REACHED_EXIT, currentTween := None, isMoving := False \<rparr>) w) i"

text \<open>Car.triggerFailure; the reason is carried by the event only.\<close>

definition triggerFailure :: "world \<Rightarrow> carid \<Rightarrow> world" where
  "triggerFailure w i =
     handleCarFailed
       (withCar i (\<lambda>c. c\<lparr> state := FAILED, currentTween := None, isMoving := False \<rparr>) w) i"

definition requestNewPath :: "world \<Rightarrow> carid \<Rightarrow> world" where
  "requestNewPath w i =
     (case objects w i of
        None \<Rightarrow> w
      | Some c \<Rightarrow>
          withCar i (\<lambda>c'. c'\<lparr> needsNewPath := False \<rparr>)
            (handlePathRequest w i (plainPos (gridRow c) (gridCol c)) (targetPosition c)))"

definition moveToCell :: "world \<Rightarrow> carid \<Rightarrow> position \<Rightarrow> world" where
  "moveToCell w i targetCell = withCar i (\<lambda>c. c\<lparr> isMoving := True, currentTween := Some targetCell \<rparr>) w"

definition checkIfReachedExit :: "world \<Rightarrow> carid \<Rightarrow> world" where
  "checkIfReachedExit w i =
     (case objects w i of
        None \<Rightarrow> w
      | Some c \<Rightarrow>
          (let atTarget = (gridRow c = row (targetPosition c) \<and> gridCol c = col (targetPosition c))
           in if atTarget \<or> isNearTarget c then reachDestination w i else w))"

definition onMoveComplete :: "world \<Rightarrow> carid \<Rightarrow> position \<Rightarrow> world" where
  "onMoveComplete w i targetCell =
     checkIfReachedExit
       (withCar i (\<lambda>c. c\<lparr> isMoving := False, currentTween := None,
                           gridRow := row targetCell, gridCol := col targetCell,
                           pathIndex := pathIndex c + 1, waitTime := 0 \<rparr>) w) i"

text \<open>The movement tween of a car ends after \<open>carSpeed\<close> milliseconds and calls back.\<close>

definition tweenCompletes :: "world \<Rightarrow> carid \<Rightarrow> world" where
  "tweenCompletes w i =
     (case objects w i of
        None \<Rightarrow> w
      | Some c \<Rightarrow> (case currentTween c of None \<Rightarrow> w | Some targetCell \<Rightarrow> onMoveComplete w i targetCell))"

definition updateSpawning :: "world \<Rightarrow> carid \<Rightarrow> rat \<Rightarrow> world" where
  "updateSpawning w i time =
     withCar i (\<lambda>c. if 500 < time - spawnTime c then c\<lparr> state := MOVING, needsNewPath := True \<rparr> else c) w"

text \<open>
  Car.updateMoving, in its four steps; the second returns from the method when the
  collision check answers true.
\<close>

definition updateMoving :: "world \<Rightarrow> carid \<Rightarrow> world" where
  "updateMoving w i =
     (case objects w i of
        None \<Rightarrow> w
      | Some c0 \<Rightarrow>
          (let w1 = (if needsNewPath c0 then requestNewPath w i else w) in
           case objects w1 i of
             None \<Rightarrow> w1
           | Some c1 \<Rightarrow>
               (let proceed = (\<lambda>w2.
                      (let w3 = (case objects w2 i of
                                   None \<Rightarrow> w2
                                 | Some c2 \<Rightarrow> if hasPath c2 \<and> length (path c2) \<le> pathIndex c2
                                             then reachDestination w2 i else w2)
                       in withCar i (\<lambda>c3. if \<not> hasPath c3 \<or> length (path c3) = 0
                                          then c3\<lparr> state := WAITING \<rparr> else c3) w3))
                in if hasPath c1 \<and> \<not> isMoving c1 \<and> pathIndex c1 < length (path c1) then
                     (let nextCell = path c1 ! pathIndex c1 in
                      case checkCollision w1 i nextCell of
                        (True, w2) \<Rightarrow> withCar i (\<lambda>c. c\<lparr> state := WAITING, isBlocked := True \<rparr>) w2
                      | (False, w2) \<Rightarrow> proceed (moveToCell w2 i nextCell))
                   else proceed w1)))"

text \<open>Car.updateWaiting; the first test returns from the method when the way is free.\<close>

definition updateWaiting :: "world \<Rightarrow> carid \<Rightarrow> rat \<Rightarrow> world" where
  "updateWaiting w i delta =
     (let w1 = withCar i (\<lambda>c. c\<lparr> waitTime := waitTime c + delta,
                                  totalWaitTime := totalWaitTime c + delta \<rparr>) w in
      case objects w1 i of
        None \<Rightarrow> w1
      | Some c1 \<Rightarrow>
          (let timeouts = (\<lambda>w2.
                 (let w3 = (case objects w2 i of
                              None \<Rightarrow> w2
                            | Some c2 \<Rightarrow> if maxWaitTime < waitTime c2 then triggerFailure w2 i else w2)
                  in withCar i (\<lambda>c3. if 2000 < waitTime c3
                                     then c3\<lparr> needsNewPath := True, waitTime := 0 \<rparr> else c3) w3))
           in if isBlocked c1 \<and> 0 < length (path c1) \<and> pathIndex c1 < length (path c1) then
                (let nextCell = path c1 ! pathIndex c1 in
                 case checkCollision w1 i nextCell of
                   (False, w2) \<Rightarrow>
                     withCar i (\<lambda>c. c\<lparr> isBlocked := False, blockedBy := None,
                                         state := MOVING, waitTime := 0 \<rparr>) w2
                 | (True, w2) \<Rightarrow> timeouts w2)
              else timeouts w1))"

text \<open>Car.update for the car with the given id.\<close>

definition carUpdate :: "world \<Rightarrow> carid \<Rightarrow> rat \<Rightarrow> rat \<Rightarrow> world" where
  "carUpdate w i time delta =
     (let w1 = withCar i (\<lambda>c. c\<lparr> lastMoveTime := time \<rparr>) w in
      case objects w1 i of
        None \<Rightarrow> w1
      | Some c \<Rightarrow>
          (case state c of
             SPAWNING \<Rightarrow> updateSpawning w1 i time
           | MOVING \<Rightarrow> updateMoving w1 i
           | WAITING \<Rightarrow> updateWaiting w1 i delta
           | REACHED_EXIT \<Rightarrow> w1
           | FAILED \<Rightarrow> w1))"

text \<open>
  The loop of CarManager.update over the cars map, in insertion order. The cleanup
  that follows it in that method only removes cars that have been in a terminal
  state for more than ten seconds.
\<close>

definition updateCars :: "world \<Rightarrow> rat \<Rightarrow> rat \<Rightarrow> world" where
  "updateCars w time delta = fold (\<lambda>i w'. carUpdate w' i time delta) (cm_cars w) w"

section \<open>Road edits and run controls (GridManager, InputManager, GameScene)\<close>

definition gm_isValidPosition :: "world \<Rightarrow> int \<Rightarrow> int \<Rightarrow> bool" where
  "gm_isValidPosition w r c = (0 \<le> r \<and> r < gm_rows w \<and> 0 \<le> c \<and> c < gm_columns w)"

text \<open>
  GridManager.isPositionEditable asks the cell at the position. The grid manager
  creates one cell for every position of the level; a cell is of a blocked type when
  the level lists it as uneditable and is editable (or a road) otherwise.
\<close>

definition gm_isPositionEditable :: "world \<Rightarrow> int \<Rightarrow> int \<Rightarrow> bool" where
  "gm_isPositionEditable w r c =
     (if \<not> gm_isValidPosition w r c then False
      else (case gm_levelData w of
              None \<Rightarrow> False
            | Some lv \<Rightarrow> \<not> List.member (uneditableCells lv) (r, c)))"

definition gm_hasRoad :: "world \<Rightarrow> int \<Rightarrow> int \<Rightarrow> bool" where
  "gm_hasRoad w r c = (map_of (gm_roads w) (gridKey r c) \<noteq> None)"

definition gm_placeRoad :: "world \<Rightarrow> int \<Rightarrow> int \<Rightarrow> bool \<times> world" where
  "gm_placeRoad w r c =
     (if \<not> gm_isValidPosition w r c \<or> \<not> gm_isPositionEditable w r c then (False, w)
      else if map_of (gm_roads w) (gridKey r c) \<noteq> None then (False, w)
      else (True, w\<lparr> gm_roads := AList.update (gridKey r c)
                                   \<lparr> rd_row = r, rd_col = c, directions = [] \<rparr> (gm_roads w) \<rparr>))"

definition gm_removeRoad :: "world \<Rightarrow> int \<Rightarrow> int \<Rightarrow> bool \<times> world" where
  "gm_removeRoad w r c =
     (case map_of (gm_roads w) (gridKey r c) of
        None \<Rightarrow> (False, w)
      | Some rd \<Rightarrow> (True, w\<lparr> gm_roads := AList.delete (gridKey r c) (gm_roads w) \<rparr>))"

definition calculateDirection :: "cell \<Rightarrow> cell \<Rightarrow> direction option" where
  "calculateDirection fromCell toCell =
     (let deltaRow = fst toCell - fst fromCell; deltaCol = snd toCell - snd fromCell in
      if \<bar>deltaRow\<bar> + \<bar>deltaCol\<bar> \<noteq> 1 then None
      else if deltaRow = - 1 then Some UP
      else if deltaRow = 1 then Some DOWN
      else if deltaCol = - 1 then Some LEFT
      else if deltaCol = 1 then Some RIGHT
      else None)"

definition handleRoadPlacement :: "world \<Rightarrow> int \<Rightarrow> int \<Rightarrow> world" where
  "handleRoadPlacement w r c =
     (if \<not> gm_isPositionEditable w r c then w
      else if gm_hasRoad w r c then w
      else if \<not> canAfford (w_gs w) roadCost then w
      else (case gm_placeRoad w r c of
              (True, w1) \<Rightarrow> w1\<lparr> w_gs := snd (placeRoad (w_gs w1) r c emptyRoadData) \<rparr>
            | (False, w1) \<Rightarrow> w1))"

definition handleRoadDeletion :: "world \<Rightarrow> int \<Rightarrow> int \<Rightarrow> world" where
  "handleRoadDeletion w r c =
     (if \<not> gm_hasRoad w r c then w
      else (case gm_removeRoad w r c of
              (True, w1) \<Rightarrow> w1\<lparr> w_gs := snd (removeRoad (w_gs w1) r c) \<rparr>
            | (False, w1) \<Rightarrow> w1))"

text \<open>
  InputManager.completeArrowDrawing: the direction is pushed on the grid manager's
  road and the road's whole direction list is then handed to the game state.
\<close>

definition completeArrowDrawing :: "world \<Rightarrow> cell \<Rightarrow> cell \<Rightarrow> world" where
  "completeArrowDrawing w startCell endCell =
     (case map_of (gm_roads w) (gridKey (fst startCell) (snd startCell)) of
        None \<Rightarrow> w
      | Some rd \<Rightarrow>
          (case calculateDirection startCell endCell of
             None \<Rightarrow> w
           | Some d \<Rightarrow>
               (let rd' = rd\<lparr> directions := directions rd @ [d] \<rparr>;
                    w1 = w\<lparr> gm_roads := AList.update (gridKey (fst startCell) (snd startCell)) rd' (gm_roads w) \<rparr>
                in w1\<lparr> w_gs := snd (updateRoadDirections (w_gs w1) (fst startCell) (snd startCell)
                                      (directions rd')) \<rparr>)))"

text \<open>CarManager.startSimulation and CarManager.stopSimulation, the listeners of the run events.\<close>

definition cm_startSimulation :: "world \<Rightarrow> world" where
  "cm_startSimulation w =
     (case cm_levelData w of
        None \<Rightarrow> w
      | Some lv \<Rightarrow>
          fold (\<lambda>k w'. scheduleCarSpawn w' k) [0..<length (lv_cars lv)]
            (updatePathfindingGrid (w\<lparr> isSpawning := True \<rparr>)))"

definition clearAllCars :: "world \<Rightarrow> world" where
  "clearAllCars w =
     (fold (\<lambda>i. withCar i (\<lambda>c. c\<lparr> currentTween := None \<rparr>)) (cm_cars w) w)
       \<lparr> cm_cars := [], carsByPosition := [] \<rparr>"

definition cm_stopSimulation :: "world \<Rightarrow> world" where
  "cm_stopSimulation w = clearAllCars (w\<lparr> isSpawning := False, spawnTimers := [] \<rparr>)"

text \<open>
  GameScene.startSimulation and GameScene.stopSimulation with the listeners of the
  events they cause: the scheduler's listener first, then the scene's, which
  switches the input off (InputManager.disable) or on again (InputManager.enable).
\<close>

definition sceneStartSimulation :: "world \<Rightarrow> rat \<Rightarrow> world" where
  "sceneStartSimulation w now =
     (if length (gs_roads (w_gs w)) = 0 then w
      else (case startSimulation (w_gs w) now of
              (True, gs1) \<Rightarrow>
                (let w1 = cm_startSimulation (w\<lparr> w_gs := gs1 \<rparr>);
                     w2 = w1\<lparr> inputEnabled := False \<rparr>
                 in w2\<lparr> w_gs := setSelectedCell (setHoveredCell (w_gs w2) None) None \<rparr>)
            | (False, gs1) \<Rightarrow> w))"

definition sceneStopSimulation :: "world \<Rightarrow> rat \<Rightarrow> world" where
  "sceneStopSimulation w now =
     (if \<not> isSimulating (w_gs w) then w
      else (let w1 = cm_stopSimulation (w\<lparr> w_gs := stopSimulation (w_gs w) now \<rparr>)
            in w1\<lparr> inputEnabled := True \<rparr>))"

text \<open>
  What drives the system: the player's road gestures, which reach their handlers
  only while the scene's input is enabled, the run controls, the timers and tweens
  of the engine, the frame updates, and a path request for a car.
\<close>

datatype action =
    RoadPlacement int int
  | RoadDeletion int int
  | ArrowDrawing cell cell
  | StartSimulation rat
  | StopSimulation rat
  | SpawnTimer nat nat carid rat
  | TweenComplete carid
  | Update rat rat
  | PathRequest carid position position

definition step :: "world \<Rightarrow> action \<Rightarrow> world" where
  "step w a =
     (case a of
        RoadPlacement r c \<Rightarrow> if inputEnabled w then handleRoadPlacement w r c else w
      | RoadDeletion r c \<Rightarrow> if inputEnabled w then handleRoadDeletion w r c else w
      | ArrowDrawing startCell endCell \<Rightarrow> if inputEnabled w then completeArrowDrawing w startCell endCell else w
      | StartSimulation now \<Rightarrow> sceneStartSimulation w now
      | StopSimulation now \<Rightarrow> sceneStopSimulation w now
      | SpawnTimer carTypeIndex k newId now \<Rightarrow> spawnTimerFires w carTypeIndex k newId now
      | TweenComplete i \<Rightarrow> tweenCompletes w i
      | Update time delta \<Rightarrow> updateCars w time delta
      | PathRequest i start endPos \<Rightarrow> handlePathRequest w i start endPos)"

definition run :: "world \<Rightarrow> action list \<Rightarrow> world" where
  "run w as = fold (\<lambda>a w'. step w' a) as w"

text \<open>
  The objects right after a level was loaded: the game state as
  \<^verbatim>\<open>initializeWithLevel\<close> leaves it (with the level's initial budget), the grid
  manager initialised for the level, the scheduler initialised for the level, and
  the pathfinder as constructed.
\<close>

definition loadedWorld :: "level \<Rightarrow> int \<Rightarrow> world" where
  "loadedWorld lv initialBudget =
     \<lparr> w_gs = \<lparr> budget = initialBudget, currentTool = PLACE, gameState = BUILDING,
                isSimulating = False, gs_level = Some lv, levelName = None,
                gridDimensions = (lv_rows lv, lv_columns lv), gs_roads = [],
                gs_cars = [], activeCars = [], selectedCell = None, hoveredCell = None,
                isDeleteMode = False,
                gs_stats = \<lparr> carsSpawned = 0, carsReachedExit = 0, carsFailed = 0,
                              simulationStartTime = None, simulationEndTime = None \<rparr>,
                pathfindingGridDirty = True, emitted = [BudgetChanged initialBudget] \<rparr>,
       gm_roads = [], gm_levelData = Some lv, gm_rows = lv_rows lv, gm_columns = lv_columns lv,
       pathFinder = newPathFinder, inputEnabled = True,
       cm_levelData = Some lv, isSpawning = False, spawnTimers = [], removalTimers = [],
       cm_cars = [], carsByPosition = [],
       w_stats = \<lparr> totalSpawned = 0, totalReachedExit = 0, totalFailed = 0,
                    spawnedByType = map (\<lambda>k. (k, 0)) [0..<length (lv_cars lv)],
                    succeededByType = map (\<lambda>k. (k, 0)) [0..<length (lv_cars lv)],
                    failedByType = map (\<lambda>k. (k, 0)) [0..<length (lv_cars lv)] \<rparr>,
       objects = (\<lambda>i. None) \<rparr>"

section \<open>The pathfinding grid and the road maps\<close>








section \<open>Distance between cells\<close>

text \<open>
  The rings of \<open>findNearestValidPosition\<close> are the level sets of the Chebyshev
  distance (the larger of the row and the column distance).
\<close>

definition chebyshev :: "cell \<Rightarrow> cell \<Rightarrow> int" where
  "chebyshev a b = max \<bar>fst b - fst a\<bar> \<bar>snd b - snd a\<bar>"

section \<open>Example data\<close>

text \<open>A 3 by 3 level with three car types, used to instantiate the theorems below.\<close>

definition exampleCarType :: cartype where
  "exampleCarType =
     \<lparr> color = ''red'',
       entrances = [\<lparr> row = 1, col = - 1, isEntrance = True, side = Some SideLeft \<rparr>],
       exit = \<lparr> row = 1, col = 3, isEntrance = True, side = Some SideRight \<rparr> \<rparr>"

definition exampleLevel :: level where
  "exampleLevel =
     \<lparr> lv_rows = 3, lv_columns = 3,
       lv_cars = [exampleCarType, exampleCarType, exampleCarType],
       uneditableCells = [] \<rparr>"

definition exampleStats :: "nat \<Rightarrow> nat \<Rightarrow> cm_stats" where
  "exampleStats reached failed =
     \<lparr> totalSpawned = reached + failed, totalReachedExit = reached, totalFailed = failed,
       spawnedByType = [], succeededByType = [], failedByType = [] \<rparr>"

definition exampleRoad :: road where
  "exampleRoad = \<lparr> rd_row = 0, rd_col = 0, directions = [] \<rparr>"

definition exampleGameState :: "bool \<Rightarrow> roadmap \<Rightarrow> nat \<Rightarrow> nat \<Rightarrow> game_state" where
  "exampleGameState simulating rds reached failed =
     \<lparr> budget = 5000, currentTool = PLACE,
       gameState = (if simulating then SIMULATING else BUILDING),
       isSimulating = simulating, gs_level = Some exampleLevel, levelName = None,
       gridDimensions = (3, 3), gs_roads = rds,
       gs_cars = [], activeCars = [], selectedCell = None, hoveredCell = None,
       isDeleteMode = False,
       gs_stats = \<lparr> carsSpawned = reached + failed, carsReachedExit = reached, carsFailed = failed,
                     simulationStartTime = Some 0, simulationEndTime = None \<rparr>,
       pathfindingGridDirty = False, emitted = [] \<rparr>"

definition mkRoad :: "int \<Rightarrow> int \<Rightarrow> direction list \<Rightarrow> cell \<times> road" where
  "mkRoad r c ds = ((r, c), \<lparr> rd_row = r, rd_col = c, directions = ds \<rparr>)"

definition exteriorPos :: "int \<Rightarrow> int \<Rightarrow> side \<Rightarrow> position" where
  "exteriorPos r c s = \<lparr> row = r, col = c, isEntrance = True, side = Some s \<rparr>"

text \<open>
  Three roads across row 0 of a 3 by 3 grid, the middle one annotated with the single
  direction right.
\<close>

definition rowRoads :: roadmap where
  "rowRoads = [mkRoad 0 0 [], mkRoad 0 1 [RIGHT], mkRoad 0 2 []]"

text \<open>Roads at \<open>(0,0)\<close>, \<open>(1,0)\<close>, \<open>(1,1)\<close> and \<open>(1,2)\<close> of a 3 by 3 grid.\<close>

definition bendRoads :: roadmap where
  "bendRoads = [mkRoad 0 0 [], mkRoad 1 0 [], mkRoad 1 1 [], mkRoad 1 2 []]"

text \<open>The cell and the state of a car.\<close>

definition carPos :: "world \<Rightarrow> carid \<Rightarrow> (int \<times> int \<times> carstates) option" where
  "carPos w i = map_option (\<lambda>c. (gridRow c, gridCol c, state c)) (objects w i)"

text \<open>
  A 3 by 3 level whose red cars enter at \<open>(1,0)\<close> and leave at \<open>(1,2)\<close> and whose
  blue cars enter at \<open>(1,1)\<close> and leave at \<open>(0,0)\<close>. The player builds the roads
  \<open>(1,0)\<close>, \<open>(1,1)\<close>, \<open>(1,2)\<close> and starts the run; a red car (id 1) and a blue car
  (id 2) are spawned, one frame passes and the red car's first tween ends. The blue
  car has no route to its exit and waits on \<open>(1,1)\<close>.
\<close>

definition blockedLevel :: level where
  "blockedLevel =
     \<lparr> lv_rows = 3, lv_columns = 3,
       lv_cars = [\<lparr> color = ''red'', entrances = [plainPos 1 0], exit = plainPos 1 2 \<rparr>,
                  \<lparr> color = ''blue'', entrances = [plainPos 1 1], exit = plainPos 0 0 \<rparr>],
       uneditableCells = [] \<rparr>"

definition blockedWorld :: world where
  "blockedWorld =
     run (loadedWorld blockedLevel 10000)
       [RoadPlacement 1 0, RoadPlacement 1 1, RoadPlacement 1 2,
        StartSimulation 0,
        SpawnTimer 0 0 1 3500, SpawnTimer 1 0 2 3600,
        Update 3616 16, TweenComplete 1]"

text \<open>
  A 3 by 3 level whose cars enter at \<open>(1,0)\<close>; the only road is at \<open>(0,2)\<close>, so the
  spawned car (id 1) receives no path.
\<close>

definition strandedLevel :: level where
  "strandedLevel =
     \<lparr> lv_rows = 3, lv_columns = 3,
       lv_cars = [\<lparr> color = ''red'', entrances = [plainPos 1 0], exit = plainPos 1 2 \<rparr>],
       uneditableCells = [] \<rparr>"

definition strandedWorld :: world where
  "strandedWorld =
     run (loadedWorld strandedLevel 10000)
       [RoadPlacement 0 2, StartSimulation 0, SpawnTimer 0 0 1 3500]"

text \<open>Eleven frames of one second each.\<close>

definition elevenSeconds :: "(rat \<times> rat) list" where
  "elevenSeconds = map (\<lambda>k. (1000 * of_nat k, 1000)) [1..<12]"



section \<open>Properties of the rounding\<close>

lemma binExp_bounds:
  assumes "x \<noteq> 0"
  shows "2 powi binExp x \<le> \<bar>x\<bar>" and "\<bar>x\<bar> < 2 powi (binExp x + 1)"
proof -
  define p where "p = fst (quotient_of \<bar>x\<bar>)"
  define q where "q = snd (quotient_of \<bar>x\<bar>)"
  define d where "d = bitlen p - bitlen q"
  have q: "0 < q" unfolding q_def by (rule quotient_of_denom_pos')
  have x: "\<bar>x\<bar> = of_int p / of_int q"
    unfolding p_def q_def by (rule quotient_of_div) simp
  have "0 < \<bar>x\<bar>" using assms by simp
  then have p: "0 < p" using q unfolding x by (simp add: zero_less_divide_iff)
  have ap: "1 \<le> bitlen p" using p bitlen_eq_zero_iff[of p] bitlen_nonneg[of p] by linarith
  have aq: "1 \<le> bitlen q" using q bitlen_eq_zero_iff[of q] bitlen_nonneg[of q] by linarith
  have pl: "(2::rat) powi (bitlen p - 1) \<le> of_int p"
  proof -
    have "(2::int) ^ nat (bitlen p - 1) \<le> p" using bitlen_bounds[OF p] by simp
    then have "(of_int ((2::int) ^ nat (bitlen p - 1)) :: rat) \<le> of_int p" by (simp only: of_int_le_iff)
    then show ?thesis using ap by (simp add: power_int_nonneg_exp)
  qed
  have pu: "of_int p < (2::rat) powi (bitlen p)"
  proof -
    have "p < (2::int) ^ nat (bitlen p)" using bitlen_bounds[OF p] by simp
    then have "(of_int p :: rat) < of_int ((2::int) ^ nat (bitlen p))" by (simp only: of_int_less_iff)
    then show ?thesis using ap by (simp add: power_int_nonneg_exp)
  qed
  have ql: "(2::rat) powi (bitlen q - 1) \<le> of_int q"
  proof -
    have "(2::int) ^ nat (bitlen q - 1) \<le> q" using bitlen_bounds[OF q] by simp
    then have "(of_int ((2::int) ^ nat (bitlen q - 1)) :: rat) \<le> of_int q" by (simp only: of_int_le_iff)
    then show ?thesis using aq by (simp add: power_int_nonneg_exp)
  qed
  have qu: "of_int q < (2::rat) powi (bitlen q)"
  proof -
    have "q < (2::int) ^ nat (bitlen q)" using bitlen_bounds[OF q] by simp
    then have "(of_int q :: rat) < of_int ((2::int) ^ nat (bitlen q))" by (simp only: of_int_less_iff)
    then show ?thesis using aq by (simp add: power_int_nonneg_exp)
  qed
  have qpos: "(0::rat) < of_int q" using q by simp
  have ppos: "(0::rat) < of_int p" using p by simp
  have upper: "\<bar>x\<bar> < 2 powi (d + 1)"
  proof -
    have "of_int p / of_int q < (2::rat) powi (bitlen p) / of_int q"
      using pu qpos by (simp add: divide_strict_right_mono)
    also have "\<dots> \<le> 2 powi (bitlen p) / 2 powi (bitlen q - 1)"
      using ql qpos by (intro divide_left_mono mult_pos_pos) simp_all
    also have "\<dots> = 2 powi (bitlen p - (bitlen q - 1))"
      by (simp add: power_int_diff)
    also have "bitlen p - (bitlen q - 1) = d + 1" by (simp add: d_def)
    finally show ?thesis unfolding x .
  qed
  have lower: "2 powi (d - 1) \<le> \<bar>x\<bar>"
  proof -
    have "(2::rat) powi (d - 1) = 2 powi (bitlen p - 1 - bitlen q)" by (simp add: d_def algebra_simps)
    also have "\<dots> = 2 powi (bitlen p - 1) / 2 powi (bitlen q)" by (simp add: power_int_diff)
    also have "\<dots> \<le> of_int p / 2 powi (bitlen q)"
      using pl by (simp add: divide_right_mono)
    also have "\<dots> \<le> of_int p / of_int q"
      using qu qpos ppos by (intro divide_left_mono) simp_all
    finally show ?thesis unfolding x .
  qed
  have be: "binExp x = (if 2 powi d \<le> \<bar>x\<bar> then d else d - 1)"
    by (simp add: binExp_def Let_def p_def q_def d_def)
  show "2 powi binExp x \<le> \<bar>x\<bar>" using lower by (simp add: be)
  show "\<bar>x\<bar> < 2 powi (binExp x + 1)" using upper by (simp add: be)
qed

lemma binExp_ge:
  assumes "x \<noteq> 0" and "2 powi e \<le> \<bar>x\<bar>"
  shows "e \<le> binExp x"
proof (rule ccontr)
  assume "\<not> e \<le> binExp x"
  then have "binExp x + 1 \<le> e" by simp
  then have "(2::rat) powi (binExp x + 1) \<le> 2 powi e" by (intro power_int_increasing) simp_all
  with assms(2) binExp_bounds(2)[OF assms(1)] show False by simp
qed

lemma binExp_mono:
  assumes "x \<noteq> 0" and "\<bar>x\<bar> \<le> \<bar>y\<bar>"
  shows "binExp x \<le> binExp y"
proof -
  have "y \<noteq> 0" using assms by auto
  moreover have "2 powi binExp x \<le> \<bar>y\<bar>" using binExp_bounds(1)[OF assms(1)] assms(2) by simp
  ultimately show ?thesis by (rule binExp_ge)
qed

lemma quantum_pos [simp]: "0 < quantum x"
  by (simp add: quantum_def)

lemma quantum_nz [simp]: "quantum x \<noteq> 0"
  by (simp add: quantum_def)

lemma quantum_nonneg [simp]: "0 \<le> quantum x"
  by (simp add: quantum_def)

lemma abs_quantum [simp]: "\<bar>quantum x\<bar> = quantum x"
  by (simp add: quantum_def)

lemma quantum_mono:
  assumes "x \<noteq> 0" and "\<bar>x\<bar> \<le> \<bar>c\<bar>"
  shows "\<exists>j. quantum c = quantum x * 2 ^ j"
proof -
  define a where "a = max (binExp x - 52) (- 1074)"
  define b where "b = max (binExp c - 52) (- 1074)"
  have "a \<le> b" using binExp_mono[OF assms] by (simp add: a_def b_def)
  then have "b = a + int (nat (b - a))" by simp
  then have "(2::rat) powi b = 2 powi a * 2 powi (int (nat (b - a)))"
    by (metis power_int_add zero_neq_numeral)
  then show ?thesis unfolding quantum_def a_def[symmetric] b_def[symmetric]
    by (intro exI[of _ "nat (b - a)"]) (simp add: power_int_nonneg_exp)
qed

lemma roundHalfEven_le: "x \<le> of_int k \<Longrightarrow> roundHalfEven x \<le> k"
proof -
  assume a: "x \<le> of_int k"
  have f: "\<lfloor>x\<rfloor> \<le> k" using a by (simp add: floor_le_iff) 
  show ?thesis
  proof (cases "x = of_int k")
    case True
    then show ?thesis by (simp add: roundHalfEven_def)
  next
    case False
    then have "x < of_int k" using a by simp
    then have "\<lfloor>x\<rfloor> < k" by (simp add: floor_less_iff)
    then show ?thesis by (simp add: roundHalfEven_def Let_def)
  qed
qed

lemma roundHalfEven_ge: "of_int k \<le> x \<Longrightarrow> k \<le> roundHalfEven x"
proof -
  assume "of_int k \<le> x"
  then have "k \<le> \<lfloor>x\<rfloor>" by (simp add: le_floor_iff)
  then show ?thesis by (simp add: roundHalfEven_def Let_def)
qed

lemma roundHalfEven_err: "\<bar>of_int (roundHalfEven x) - x\<bar> \<le> 1 / 2"
proof -
  have "of_int \<lfloor>x\<rfloor> \<le> x" "x < of_int \<lfloor>x\<rfloor> + 1" by linarith+
  then show ?thesis by (auto simp: roundHalfEven_def Let_def abs_le_iff)
qed

lemma nearestDouble_nonneg: "0 \<le> x \<Longrightarrow> 0 \<le> nearestDouble x"
proof -
  assume "0 \<le> x"
  then have "of_int 0 \<le> x / quantum x" by (simp add: divide_nonneg_pos)
  then have "0 \<le> roundHalfEven (x / quantum x)" by (rule roundHalfEven_ge)
  then show ?thesis by (simp add: nearestDouble_def mult_nonneg_nonneg)
qed

lemma nearestDouble_le:
  assumes "x \<noteq> 0" and "\<bar>x\<bar> \<le> \<bar>c\<bar>" and "x \<le> c" and c: "c = of_int k * quantum c"
  shows "nearestDouble x \<le> c"
proof -
  obtain j where j: "quantum c = quantum x * 2 ^ j" using quantum_mono[OF assms(1,2)] by blast
  have c': "c = of_int (k * 2 ^ j) * quantum x"
    by (subst c) (simp add: j)
  have "x / quantum x \<le> of_int (k * 2 ^ j)"
    using assms(3) by (subst (asm) c') (simp add: pos_divide_le_eq)
  then have "roundHalfEven (x / quantum x) \<le> k * 2 ^ j" by (rule roundHalfEven_le)
  then have "(of_int (roundHalfEven (x / quantum x)) :: rat) \<le> of_int (k * 2 ^ j)"
    by (simp only: of_int_le_iff)
  then have "nearestDouble x \<le> of_int (k * 2 ^ j) * quantum x"
    unfolding nearestDouble_def by (simp add: mult_right_mono)
  then show ?thesis using c' by simp
qed

lemma nearestDouble_err: "\<bar>nearestDouble x - x\<bar> \<le> quantum x / 2"
proof -
  have "nearestDouble x - x = (of_int (roundHalfEven (x / quantum x)) - x / quantum x) * quantum x"
    by (simp add: nearestDouble_def algebra_simps)
  then have "\<bar>nearestDouble x - x\<bar> = \<bar>of_int (roundHalfEven (x / quantum x)) - x / quantum x\<bar> * quantum x"
    by (simp add: abs_mult)
  also have "\<dots> \<le> (1 / 2) * quantum x"
    by (intro mult_right_mono roundHalfEven_err) simp
  finally show ?thesis by simp
qed

lemma quantum_normal:
  assumes "x \<noteq> 0" and "- 1022 \<le> binExp x"
  shows "quantum x \<le> \<bar>x\<bar> / 2 ^ 52"
proof -
  have "max (binExp x - 52) (- 1074) = binExp x - 52" using assms(2) by simp
  then have "quantum x = 2 powi (binExp x) / 2 ^ 52"
    by (simp add: quantum_def power_int_diff)
  then show ?thesis using binExp_bounds(1)[OF assms(1)] by (simp add: divide_right_mono)
qed

lemma nearestDouble_relative:
  assumes "x \<noteq> 0" and "2 powi (- 1022) \<le> \<bar>x\<bar>"
  shows "\<bar>nearestDouble x - x\<bar> \<le> \<bar>x\<bar> / 2 ^ 53"
proof -
  have "- 1022 \<le> binExp x" using assms by (rule binExp_ge)
  then have "quantum x \<le> \<bar>x\<bar> / 2 ^ 52" using assms(1) by (intro quantum_normal)
  then have "quantum x / 2 \<le> \<bar>x\<bar> / 2 ^ 52 / 2" by (simp add: divide_right_mono)
  with nearestDouble_err[of x] show ?thesis by simp
qed

lemma binExp_zero: "binExp 0 = - 2"
  by code_simp

lemma roundDouble_bounded:
  assumes "0 \<le> x" and "x \<le> c" and c: "c = of_int k * quantum c" and fin: "binExp c < 1024"
  shows "\<exists>y. roundDouble x = Num y \<and> 0 \<le> y \<and> y \<le> c \<and> (x \<noteq> 0 \<longrightarrow> y = nearestDouble x)"
proof (cases "x = 0")
  case True
  then show ?thesis using assms by (simp add: roundDouble_def)
next
  case False
  have "\<bar>x\<bar> \<le> \<bar>c\<bar>" using assms(1,2) by simp
  then have le: "nearestDouble x \<le> c" using False assms(2) c by (intro nearestDouble_le)
  have ge: "0 \<le> nearestDouble x" using assms(1) by (rule nearestDouble_nonneg)
  have "binExp (nearestDouble x) < 1024"
  proof (cases "nearestDouble x = 0")
    case True
    then show ?thesis by (simp add: binExp_zero)
  next
    case nz: False
    have "\<bar>nearestDouble x\<bar> \<le> \<bar>c\<bar>" using le ge by simp
    with nz have "binExp (nearestDouble x) \<le> binExp c" by (rule binExp_mono)
    then show ?thesis using fin by simp
  qed
  then have "roundDouble x = Num (nearestDouble x)"
    using False by (simp add: roundDouble_def Let_def)
  then show ?thesis using le ge by simp
qed

lemma binExp_half: "binExp (1 / 2) = - 1"
  by code_simp

lemma binExp_one: "binExp 1 = 0"
  by code_simp

lemma binExp_fifty: "binExp 50 = 5"
  by code_simp

lemma binExp_hundred: "binExp 100 = 6"
  by code_simp

lemma grid_half: "(1 / 2 :: rat) = of_int (2 ^ 52) * quantum (1 / 2)"
  by code_simp

lemma grid_one: "(1 :: rat) = of_int (2 ^ 52) * quantum 1"
  by code_simp

lemma grid_fifty: "(50 :: rat) = of_int (50 * 2 ^ 47) * quantum 50"
  by code_simp

lemma grid_hundred: "(100 :: rat) = of_int (100 * 2 ^ 46) * quantum 100"
  by code_simp

section \<open>Properties of the outcome evaluation\<close>

lemma getSuccessRate_rounded:
  assumes nz: "totalReachedExit st + totalFailed st \<noteq> 0"
    and le: "of_nat (totalReachedExit st) / of_nat (totalReachedExit st + totalFailed st) \<le> c"
    and c: "c = of_int k * quantum c" and c1: "binExp c < 1024"
    and h: "100 * c = of_int k' * quantum (100 * c)" and h1: "binExp (100 * c) < 1024"
  shows "\<exists>d q. roundDouble (of_nat (totalReachedExit st) / of_nat (totalReachedExit st + totalFailed st)) = Num d
               \<and> 0 \<le> d \<and> d \<le> c
               \<and> roundDouble (d * 100) = Num q
               \<and> getSuccessRate st = Num q \<and> 0 \<le> q \<and> q \<le> 100 * c"
proof -
  define x :: rat where "x = of_nat (totalReachedExit st) / of_nat (totalReachedExit st + totalFailed st)"
  have x0: "0 \<le> x" unfolding x_def by (intro divide_nonneg_nonneg) simp_all
  have tz: "(of_nat (totalReachedExit st + totalFailed st) :: rat) \<noteq> 0"
    using nz by (simp only: of_nat_eq_0_iff not_False_eq_True)
  from roundDouble_bounded[OF x0 le[folded x_def] c c1]
  obtain d where d: "roundDouble x = Num d" "0 \<le> d" "d \<le> c" by blast
  have d100: "0 \<le> d * 100" "d * 100 \<le> 100 * c" using d by simp_all
  from roundDouble_bounded[OF d100 h h1]
  obtain q where q: "roundDouble (d * 100) = Num q" "0 \<le> q" "q \<le> 100 * c" by blast
  have "getSuccessRate st = js_times (js_div (of_nat (totalReachedExit st))
            (of_nat (totalReachedExit st + totalFailed st))) 100"
    using nz by (simp only: getSuccessRate_def Let_def if_False)
  also have "js_div (of_nat (totalReachedExit st)) (of_nat (totalReachedExit st + totalFailed st))
               = roundDouble x"
    unfolding js_div_def x_def using tz by (simp only: if_True not_False_eq_True)
  finally have "getSuccessRate st = Num q" by (simp add: d q)
  then show ?thesis using d q unfolding x_def by blast
qed

lemma grid_half100: "(100 * (1 / 2) :: rat) = of_int (50 * 2 ^ 47) * quantum (100 * (1 / 2))"
  by code_simp

lemma binExp_half100: "binExp (100 * (1 / 2)) < 1024"
  by code_simp

lemma binExp_one100: "binExp (100 * 1) < 1024"
  by code_simp

lemma binExp_half_fin: "binExp (1 / 2) < 1024"
  by code_simp

lemma binExp_one_fin: "binExp 1 < 1024"
  by code_simp

lemma grid_one100: "(100 * 1 :: rat) = of_int (100 * 2 ^ 46) * quantum (100 * 1)"
  by code_simp

lemma half_below_threshold: "\<not> successThreshold \<le> s" if "s \<le> 1 / 2"
  using that by (simp add: successThreshold_def)

lemma fraction_at_most_half:
  assumes "r < f"
  shows "(of_nat r :: rat) / of_nat (r + f) \<le> 1 / 2"
proof -
  have "(of_nat (2 * r) :: rat) \<le> of_nat (r + f)"
    using assms by (simp only: of_nat_le_iff)
  moreover have "(0::rat) < of_nat (r + f)" using assms by (simp only: of_nat_0_less_iff)
  ultimately show ?thesis by (simp add: pos_divide_le_eq)
qed

lemma rate_below_threshold:
  assumes "r < f"
  shows "\<exists>d. js_div (of_nat r) (of_nat (r + f)) = Num d \<and> \<not> successThreshold \<le> d"
proof -
  have tz: "(of_nat (r + f) :: rat) \<noteq> 0" using assms by (simp only: of_nat_eq_0_iff)
  have x0: "(0::rat) \<le> of_nat r / of_nat (r + f)" by (intro divide_nonneg_nonneg) simp_all
  from roundDouble_bounded[OF x0 fraction_at_most_half[OF assms] grid_half binExp_half_fin]
  obtain d where d: "roundDouble (of_nat r / of_nat (r + f)) = Num d" "d \<le> 1 / 2" by auto
  have "js_div (of_nat r) (of_nat (r + f)) = Num d"
    unfolding js_div_def using tz d(1) by (simp only: if_True not_False_eq_True)
  then show ?thesis using half_below_threshold[OF d(2)] by blast
qed

lemma successRate_below_threshold:
  assumes "totalReachedExit st < totalFailed st"
  shows "\<not> js_ge (js_over (getSuccessRate st) 100) successThreshold"
proof -
  have nz: "totalReachedExit st + totalFailed st \<noteq> 0" using assms by simp
  from getSuccessRate_rounded[OF nz fraction_at_most_half[OF assms] grid_half binExp_half_fin
         grid_half100 binExp_half100]
  obtain q where q: "getSuccessRate st = Num q" "0 \<le> q" "q \<le> 100 * (1 / 2)" by blast
  have "0 \<le> q / 100" "q / 100 \<le> 1 / 2" using q by simp_all
  from roundDouble_bounded[OF this grid_half binExp_half_fin]
  obtain s where s: "roundDouble (q / 100) = Num s" "s \<le> 1 / 2" by auto
  have "js_over (getSuccessRate st) 100 = Num s" by (simp add: q js_div_def s)
  then show ?thesis using half_below_threshold[OF s(2)] by simp
qed

lemma checkEndConditions_lost_iff:
  "checkEndConditions levelData st = Some EndLost \<longleftrightarrow>
     (case levelData of Some lv \<Rightarrow> length (lv_cars lv) * 3 | None \<Rightarrow> 10)
        \<le> totalReachedExit st + totalFailed st
     \<and> totalReachedExit st < totalFailed st"
proof (cases "totalReachedExit st < totalFailed st")
  case True
  show ?thesis
    using True successRate_below_threshold[OF True]
    by (simp add: checkEndConditions_def Let_def)
next
  case False
  then show ?thesis
    by (simp add: checkEndConditions_def Let_def)
qed

lemma round_four_fifths: "roundDouble (8 / 10) = Num successThreshold"
  by code_simp

lemma round_eighty: "roundDouble (successThreshold * 100) = Num 80"
  by code_simp

lemma round_eighty_percent: "roundDouble (80 / 100) = Num successThreshold"
  by code_simp

lemma successRate_eight_two:
  assumes "totalReachedExit st = 8" and "totalFailed st = 2"
  shows "getSuccessRate st = Num 80" and "js_over (getSuccessRate st) 100 = Num successThreshold"
proof -
  have "js_div 8 10 = Num successThreshold"
    unfolding js_div_def using round_four_fifths by simp
  then show g: "getSuccessRate st = Num 80"
    using assms round_eighty by (simp add: getSuccessRate_def)
  show "js_over (getSuccessRate st) 100 = Num successThreshold"
    unfolding g using round_eighty_percent by (simp add: js_div_def)
qed

lemma fold_emit:
  "fold (\<lambda>i. emit (f i)) xs gs = gs\<lparr> emitted := emitted gs @ map f xs \<rparr>"
  by (induction xs arbitrary: gs) (simp_all add: emit_def)

lemma checkGameEndConditions_lost:
  assumes sim: "isSimulating gs" and lv: "gs_level gs = Some lv"
    and enough: "length (lv_cars lv) * 2 \<le> carsReachedExit (gs_stats gs) + carsFailed (gs_stats gs)"
    and more: "carsReachedExit (gs_stats gs) < carsFailed (gs_stats gs)"
  shows "\<exists>rate. checkGameEndConditions gs now =
           Some (emit (LevelLost rate) (stopSimulation (gs\<lparr> gameState := LOST \<rparr>) now))"
proof -
  obtain d where d: "js_div (of_nat (carsReachedExit (gs_stats gs)))
                       (of_nat (carsReachedExit (gs_stats gs) + carsFailed (gs_stats gs))) = Num d"
    and low: "\<not> successThreshold \<le> d"
    using rate_below_threshold[OF more] by blast
  show ?thesis
    using sim lv enough more low
    unfolding checkGameEndConditions_def Let_def d
    by (intro exI[of _ "Num d"]) simp
qed

lemma roundDouble_relative:
  assumes "0 < x" and "2 powi (- 1022) \<le> x" and "roundDouble x = Num y"
  shows "\<bar>y - x\<bar> \<le> x / 2 ^ 53"
proof -
  have nz: "x \<noteq> 0" using assms(1) by simp
  have "roundDouble x = Num y \<Longrightarrow> y = nearestDouble x"
    using nz by (simp add: roundDouble_def Let_def split: if_splits)
  then have "y = nearestDouble x" using assms(3) by simp
  then show ?thesis using nearestDouble_relative[of x] nz assms(1,2) by simp
qed

lemma double_rounding_error:
  assumes x: "0 < x" and lo: "1 / 2 ^ 53 \<le> x"
    and d: "roundDouble x = Num d" and q: "roundDouble (d * 100) = Num q"
  shows "\<bar>q - 100 * x\<bar> \<le> 100 * x / 2 ^ 51"
proof -
  define u :: rat where "u = 1 / 2 ^ 53"
  define a where "a = x * u"
  define b where "b = d * u"
  have u: "0 < u" "u \<le> 1 / 2" by (simp_all add: u_def)
  have "(2::rat) powi (- 1022) \<le> 2 powi (- 53)" by (intro power_int_increasing) simp_all
  then have p: "(2::rat) powi (- 1022) \<le> u"
    by (simp add: power_int_minus_divide u_def)
  have a0: "0 \<le> a" using x u by (simp add: a_def)
  have "x * u \<le> x * (1 / 2)" using x u by (intro mult_left_mono) simp_all
  then have ah: "a \<le> x / 2" by (simp add: a_def)
  have "\<bar>d - x\<bar> \<le> x / 2 ^ 53"
    using x lo p d by (intro roundDouble_relative) (simp_all add: u_def)
  then have e1: "\<bar>d - x\<bar> \<le> a" by (simp add: a_def u_def)
  have dh: "x / 2 \<le> d" using e1 ah by linarith
  have du: "d \<le> x + a" using e1 by linarith
  have dpos: "0 < d * 100" using dh x by simp
  have "u \<le> d * 100" using dh lo by (simp add: u_def)
  then have "(2::rat) powi (- 1022) \<le> d * 100" using p by simp
  then have "\<bar>q - d * 100\<bar> \<le> d * 100 / 2 ^ 53"
    using dpos q by (intro roundDouble_relative) simp_all
  then have e2: "\<bar>q - d * 100\<bar> \<le> 100 * b" by (simp add: b_def u_def)
  have "d * u \<le> (x + a) * u" using du u by (intro mult_right_mono) simp_all
  then have b1: "b \<le> a + a * u" by (simp add: b_def a_def algebra_simps)
  have "a * u \<le> a * (1 / 2)" using a0 u by (intro mult_left_mono) simp_all
  then have b2: "b \<le> a + a / 2" using b1 by simp
  have "\<bar>q - 100 * x\<bar> \<le> 400 * a" using e1 e2 b2 a0 by linarith
  also have "400 * a = 100 * x / 2 ^ 51" by (simp add: a_def u_def)
  finally show ?thesis .
qed

lemma successRate_eleven_nine: "getSuccessRate (exampleStats 11 9) = Num (55 + 1 / 2 ^ 47)"
  by code_simp

text \<open>
  C10, as the claim states it, fails. With \<open>reached = 11\<close> and \<open>failed = 9\<close> the
  quotient \<open>11 / 20\<close> is not a double; its nearest double times \<open>100\<close> rounds to
  \<open>55 + 2^(-47)\<close> (printed \<^verbatim>\<open>55.00000000000001\<close>), not to \<open>100 \<times> 11 / 20 = 55\<close>.
\<close>

theorem getSuccessRate_not_exact:
  "getSuccessRate (exampleStats 11 9) = Num (55 + 1 / 2 ^ 47)
   \<and> getSuccessRate (exampleStats 11 9) \<noteq> Num (100 * 11 / (11 + 9))"
  by (simp add: successRate_eleven_nine)

text \<open>
  C10, amended. \<^verbatim>\<open>getSuccessRate\<close> always returns a finite number: \<open>0\<close> when no
  vehicle has terminated (the division by zero is never reached), and otherwise the
  double nearest to \<open>100 \<times> d\<close>, where \<open>d\<close> is the double nearest to
  \<open>reached / (reached + failed)\<close>. That number lies between \<open>0\<close> and \<open>100\<close>, and for
  counters below \<open>2^53\<close> it differs from \<open>100 \<times> reached / (reached + failed)\<close> by
  at most the fraction \<open>2^(-51)\<close> of it.
\<close>

theorem getSuccessRate_total_rounded:
  "(totalReachedExit st + totalFailed st = 0 \<longrightarrow> getSuccessRate st = Num 0)
   \<and> (totalReachedExit st + totalFailed st \<noteq> 0 \<longrightarrow>
        (\<exists>d q. roundDouble (of_nat (totalReachedExit st) / of_nat (totalReachedExit st + totalFailed st)) = Num d
              \<and> roundDouble (d * 100) = Num q
              \<and> getSuccessRate st = Num q
              \<and> 0 \<le> q \<and> q \<le> 100
              \<and> (totalReachedExit st + totalFailed st < 2 ^ 53 \<longrightarrow>
                   \<bar>q - 100 * (of_nat (totalReachedExit st) / of_nat (totalReachedExit st + totalFailed st))\<bar>
                     \<le> 100 * (of_nat (totalReachedExit st) / of_nat (totalReachedExit st + totalFailed st)) / 2 ^ 51)))"
proof (intro conjI impI)
  assume "totalReachedExit st + totalFailed st = 0"
  then show "getSuccessRate st = Num 0" by (simp add: getSuccessRate_def)
next
  assume nz: "totalReachedExit st + totalFailed st \<noteq> 0"
  define x :: rat where
    "x = of_nat (totalReachedExit st) / of_nat (totalReachedExit st + totalFailed st)"
  have tpos: "(0::rat) < of_nat (totalReachedExit st + totalFailed st)"
    using nz by (simp only: of_nat_0_less_iff; simp)
  have "(of_nat (totalReachedExit st) :: rat) \<le> of_nat (totalReachedExit st + totalFailed st)"
    by (simp only: of_nat_le_iff; simp)
  then have x1: "x \<le> 1" using tpos unfolding x_def by (simp only: pos_divide_le_eq; simp)
  from getSuccessRate_rounded[OF nz x1[unfolded x_def] grid_one binExp_one_fin grid_one100 binExp_one100]
  obtain d q where d: "roundDouble x = Num d" and q: "roundDouble (d * 100) = Num q"
    and g: "getSuccessRate st = Num q" and q0: "0 \<le> q" and q1: "q \<le> 100"
    unfolding x_def by auto
  have err: "\<bar>q - 100 * x\<bar> \<le> 100 * x / 2 ^ 51"
    if small: "totalReachedExit st + totalFailed st < 2 ^ 53"
  proof (cases "totalReachedExit st = 0")
    case True
    then have "x = 0" by (simp add: x_def)
    then have "q = 0" using d q by (simp add: roundDouble_def)
    then show ?thesis using \<open>x = 0\<close> by simp
  next
    case False
    then have "1 \<le> totalReachedExit st" by simp
    then have "(of_nat 1 :: rat) \<le> of_nat (totalReachedExit st)" by (simp only: of_nat_le_iff)
    then have r1: "(1::rat) \<le> of_nat (totalReachedExit st)" by simp
    have "(of_nat (totalReachedExit st + totalFailed st) :: rat) \<le> of_nat (2 ^ 53)"
      using small by (simp only: of_nat_le_iff; simp)
    then have t53: "(of_nat (totalReachedExit st + totalFailed st) :: rat) \<le> 2 ^ 53" by simp
    have "1 / 2 ^ 53 \<le> 1 / (of_nat (totalReachedExit st + totalFailed st) :: rat)"
      using t53 tpos by (intro divide_left_mono mult_pos_pos) simp_all
    also have "\<dots> \<le> x" unfolding x_def using r1 tpos by (intro divide_right_mono) simp_all
    finally have lo: "1 / 2 ^ 53 \<le> x" .
    then have "0 < x" by (rule less_le_trans[rotated]) simp
    then show ?thesis using lo d q by (rule double_rounding_error)
  qed
  show "\<exists>d q. roundDouble (of_nat (totalReachedExit st) / of_nat (totalReachedExit st + totalFailed st)) = Num d
              \<and> roundDouble (d * 100) = Num q
              \<and> getSuccessRate st = Num q
              \<and> 0 \<le> q \<and> q \<le> 100
              \<and> (totalReachedExit st + totalFailed st < 2 ^ 53 \<longrightarrow>
                   \<bar>q - 100 * (of_nat (totalReachedExit st) / of_nat (totalReachedExit st + totalFailed st))\<bar>
                     \<le> 100 * (of_nat (totalReachedExit st) / of_nat (totalReachedExit st + totalFailed st)) / 2 ^ 51)"
    using d q g q0 q1 err unfolding x_def by blast
qed

theorem getSuccessRate_total_rounded_witness:
  "getSuccessRate (exampleStats 0 0) = Num 0
   \<and> (\<exists>q. getSuccessRate (exampleStats 11 9) = Num q \<and> 0 \<le> q \<and> q \<le> 100
          \<and> \<bar>q - 55\<bar> \<le> 55 / 2 ^ 51)"
proof -
  have z: "getSuccessRate (exampleStats 0 0) = Num 0"
    using getSuccessRate_total_rounded [of "exampleStats 0 0"] by (simp add: exampleStats_def)
  have nz: "totalReachedExit (exampleStats 11 9) + totalFailed (exampleStats 11 9) \<noteq> 0"
    and small: "totalReachedExit (exampleStats 11 9) + totalFailed (exampleStats 11 9) < 2 ^ 53"
    and x: "(of_nat (totalReachedExit (exampleStats 11 9)) :: rat)
              / of_nat (totalReachedExit (exampleStats 11 9) + totalFailed (exampleStats 11 9)) = 11 / 20"
    by (simp_all add: exampleStats_def)
  from getSuccessRate_total_rounded [of "exampleStats 11 9"] nz small
  obtain q where "getSuccessRate (exampleStats 11 9) = Num q" "0 \<le> q" "q \<le> 100"
    "\<bar>q - 100 * (11 / 20)\<bar> \<le> 100 * (11 / 20) / 2 ^ 51"
    unfolding x by blast
  then show ?thesis using z by auto
qed

text \<open>
  C5. With \<open>reached = 8\<close> and \<open>failed = 2\<close> and the minimum sample size met, the
  evaluation reports WON: the success rate is exactly the threshold \<open>0.8\<close>, and the
  comparison with it is inclusive.
\<close>

theorem win_threshold_inclusive:
  assumes "totalReachedExit st = 8" and "totalFailed st = 2"
    and "(case levelData of Some lv \<Rightarrow> length (lv_cars lv) * 3 | None \<Rightarrow> 10) \<le> 10"
  shows "js_over (getSuccessRate st) 100 = Num successThreshold
         \<and> checkEndConditions levelData st = Some EndWon"
  using assms successRate_eight_two[OF assms(1,2)]
  by (simp add: checkEndConditions_def Let_def)

theorem win_threshold_inclusive_witness:
  "js_over (getSuccessRate (exampleStats 8 2)) 100 = Num successThreshold
   \<and> checkEndConditions (Some exampleLevel) (exampleStats 8 2) = Some EndWon"
  using win_threshold_inclusive [of "exampleStats 8 2" "Some exampleLevel"]
  by (simp add: exampleStats_def exampleLevel_def)

text \<open>
  C4. Once the number of terminated vehicles has reached the minimum sample size and
  more vehicles have failed than reached their exit, the evaluation reports LOST. For
  the scheduler's evaluator this is an equivalence: LOST is reported exactly in those
  states, whatever the comparison of the success rate with the win threshold, which
  is false in all of them. The game state's evaluator reports LOST in those states
  too (it emits the level-lost event and stops the run).
\<close>

theorem lose_when_failed_exceeds_reached:
  "(checkEndConditions levelData st = Some EndLost \<longleftrightarrow>
      (case levelData of Some lv \<Rightarrow> length (lv_cars lv) * 3 | None \<Rightarrow> 10)
         \<le> totalReachedExit st + totalFailed st
      \<and> totalReachedExit st < totalFailed st)
   \<and> (isSimulating gs \<and> gs_level gs = Some lv
        \<and> length (lv_cars lv) * 2 \<le> carsReachedExit (gs_stats gs) + carsFailed (gs_stats gs)
        \<and> carsReachedExit (gs_stats gs) < carsFailed (gs_stats gs)
      \<longrightarrow> (\<exists>gs' rate. checkGameEndConditions gs now = Some gs'
              \<and> last (emitted gs') = LevelLost rate \<and> \<not> isSimulating gs'))"
proof (intro conjI impI)
  show "checkEndConditions levelData st = Some EndLost \<longleftrightarrow>
      (case levelData of Some lv \<Rightarrow> length (lv_cars lv) * 3 | None \<Rightarrow> 10)
         \<le> totalReachedExit st + totalFailed st
      \<and> totalReachedExit st < totalFailed st"
    by (rule checkEndConditions_lost_iff)
next
  assume a: "isSimulating gs \<and> gs_level gs = Some lv
        \<and> length (lv_cars lv) * 2 \<le> carsReachedExit (gs_stats gs) + carsFailed (gs_stats gs)
        \<and> carsReachedExit (gs_stats gs) < carsFailed (gs_stats gs)"
  then obtain rate where "checkGameEndConditions gs now =
           Some (emit (LevelLost rate) (stopSimulation (gs\<lparr> gameState := LOST \<rparr>) now))"
    using checkGameEndConditions_lost [of gs lv now] by blast
  moreover have "\<not> isSimulating (stopSimulation (gs\<lparr> gameState := LOST \<rparr>) now)"
    by (simp add: stopSimulation_def Let_def fold_emit emit_def)
  ultimately show "\<exists>gs' rate. checkGameEndConditions gs now = Some gs'
              \<and> last (emitted gs') = LevelLost rate \<and> \<not> isSimulating gs'"
    by (simp add: emit_def)
qed

theorem lose_when_failed_exceeds_reached_witness:
  "checkEndConditions (Some exampleLevel) (exampleStats 5 6) = Some EndLost
   \<and> (\<exists>gs' rate. checkGameEndConditions (exampleGameState True [] 5 6) 1 = Some gs'
              \<and> last (emitted gs') = LevelLost rate \<and> \<not> isSimulating gs')"
  using lose_when_failed_exceeds_reached
          [of "Some exampleLevel" "exampleStats 5 6" "exampleGameState True [] 5 6" exampleLevel 1]
  by (simp add: exampleStats_def exampleLevel_def exampleGameState_def)

section \<open>Properties of the run controls and road edits\<close>

text \<open>
  C8. When a simulation is already running, or no road is placed, start-simulation
  answers false and returns the game state as it was: no field changes, and no event
  is emitted (so no listener starts spawning).
\<close>

theorem startSimulation_rejected:
  assumes "isSimulating gs \<or> length (gs_roads gs) = 0"
  shows "startSimulation gs now = (False, gs)"
  using assms by (auto simp: startSimulation_def)

theorem startSimulation_rejected_witness:
  "startSimulation (exampleGameState False [] 0 0) 7 = (False, exampleGameState False [] 0 0)
   \<and> startSimulation (exampleGameState True [((0, 0), exampleRoad)] 0 0) 7
       = (False, exampleGameState True [((0, 0), exampleRoad)] 0 0)"
  using startSimulation_rejected [of "exampleGameState False [] 0 0" 7]
        startSimulation_rejected [of "exampleGameState True [((0, 0), exampleRoad)] 0 0" 7]
  by (simp add: exampleGameState_def)

text \<open>
  C9. While a simulation is running, placing and removing a road are rejected and
  leave the game state as it was. Updating the directions of an existing road is not
  guarded by the simulation flag: it answers true, stores the new direction list on
  that road, leaves every other road as it was and marks the pathfinding grid dirty,
  while the simulation keeps running.
\<close>

theorem road_edits_during_simulation:
  assumes "isSimulating gs"
  shows "placeRoad gs r c d = (False, gs)
         \<and> removeRoad gs r c = (False, gs)
         \<and> (getRoad gs r c = Some rd \<longrightarrow>
              fst (updateRoadDirections gs r c ds) = True
              \<and> getRoad (snd (updateRoadDirections gs r c ds)) r c = Some (rd\<lparr> directions := ds \<rparr>)
              \<and> (\<forall>r' c'. (r', c') \<noteq> (r, c) \<longrightarrow>
                    getRoad (snd (updateRoadDirections gs r c ds)) r' c' = getRoad gs r' c')
              \<and> pathfindingGridDirty (snd (updateRoadDirections gs r c ds))
              \<and> isSimulating (snd (updateRoadDirections gs r c ds)))"
  using assms
  by (auto simp: placeRoad_def removeRoad_def updateRoadDirections_def emit_def getRoad_def
      gridKey_def update_conv')

theorem road_edits_during_simulation_witness:
  "placeRoad (exampleGameState True [((0, 0), exampleRoad)] 0 0) 0 1 emptyRoadData
     = (False, exampleGameState True [((0, 0), exampleRoad)] 0 0)
   \<and> removeRoad (exampleGameState True [((0, 0), exampleRoad)] 0 0) 0 0
     = (False, exampleGameState True [((0, 0), exampleRoad)] 0 0)
   \<and> getRoad (snd (updateRoadDirections (exampleGameState True [((0, 0), exampleRoad)] 0 0) 0 0 [RIGHT])) 0 0
     = Some (exampleRoad\<lparr> directions := [RIGHT] \<rparr>)
   \<and> pathfindingGridDirty (snd (updateRoadDirections (exampleGameState True [((0, 0), exampleRoad)] 0 0) 0 0 [RIGHT]))"
  using road_edits_during_simulation
          [of "exampleGameState True [((0, 0), exampleRoad)] 0 0" 0 1 emptyRoadData]
        road_edits_during_simulation
          [of "exampleGameState True [((0, 0), exampleRoad)] 0 0" 0 0 emptyRoadData exampleRoad "[RIGHT]"]
  by (simp add: exampleGameState_def getRoad_def gridKey_def)

section \<open>Properties of the pathfinder\<close>

lemma search_ends:
  assumes "\<forall>p \<in> set queue. p \<noteq> [] \<and> last p = start"
    and "search n g goal seen queue \<noteq> []"
  shows "hd (search n g goal seen queue) = start \<and> last (search n g goal seen queue) = goal"
  using assms
proof (induction n g goal seen queue rule: search.induct)
  case (4 n g goal seen c p queue)
  show ?case
  proof (cases "c = goal")
    case True
    have l: "last (c # p) = start" using "4.prems"(1) by simp
    have res: "search (Suc n) g goal seen ((c # p) # queue) = rev (c # p)"
      using True by simp
    show ?thesis
      unfolding res hd_rev last_rev using l True by simp
  next
    case False
    let ?ns = "filter (\<lambda>m. m \<notin> set seen) (getNeighbors g c)"
    have q: "\<forall>p' \<in> set (queue @ map (\<lambda>m. m # c # p) ?ns). p' \<noteq> [] \<and> last p' = start"
      using "4.prems"(1) by auto
    have ne: "search n g goal (seen @ ?ns) (queue @ map (\<lambda>m. m # c # p) ?ns) \<noteq> []"
      using "4.prems"(2) False by (simp add: Let_def)
    show ?thesis
      using "4.IH"[OF False refl q ne] False by (simp add: Let_def)
  qed
qed simp_all

lemma findPath_ends:
  assumes "findPath pf sr sc er ec = Some route"
  shows "route \<noteq> [] \<and> hd route = plainPos sr sc \<and> last route = plainPos er ec"
proof -
  obtain g where g: "pf_grid pf = Some g"
    using assms by (auto simp: findPath_def split: option.splits)
  let ?res = "AStarFinder_findPath sc sr ec er g"
  have ne: "?res \<noteq> []" and p: "route = map (\<lambda>(x, y). plainPos y x) ?res"
    using assms g by (auto simp: findPath_def Let_def split: if_splits)
  have "hd ?res = (sc, sr) \<and> last ?res = (ec, er)"
    unfolding AStarFinder_findPath_def
    by (rule search_ends) (use ne in \<open>simp_all add: AStarFinder_findPath_def\<close>)
  then show ?thesis using ne p by (simp add: hd_map last_map)
qed

lemma set_pairs: "set (concat (map (\<lambda>a. map (\<lambda>b. (a, b)) ys) xs)) = set xs \<times> set ys"
  by auto

lemma ring_iff: "(dr, dc) \<in> set (ring radius) \<longleftrightarrow> max \<bar>dr\<bar> \<bar>dc\<bar> = radius"
  unfolding ring_def set_filter set_pairs by auto

lemma find_append: "find P (xs @ ys) = (case find P xs of None \<Rightarrow> find P ys | Some x \<Rightarrow> Some x)"
  by (induction xs) simp_all

lemma find_concat:
  "find P (concat (map f xs)) = Some q \<Longrightarrow>
     \<exists>ys z zs. xs = ys @ z # zs \<and> q \<in> set (f z) \<and> P q \<and> (\<forall>y \<in> set ys. \<forall>x \<in> set (f y). \<not> P x)"
proof (induction xs)
  case Nil
  then show ?case by simp
next
  case (Cons a xs)
  show ?case
  proof (cases "find P (f a)")
    case None
    then have no: "\<forall>x \<in> set (f a). \<not> P x" by (simp add: find_None_iff)
    have "find P (concat (map f xs)) = Some q"
      using Cons.prems None by (simp add: find_append)
    from Cons.IH[OF this] obtain ys z zs where
      "xs = ys @ z # zs" "q \<in> set (f z)" "P q" "\<forall>y \<in> set ys. \<forall>x \<in> set (f y). \<not> P x"
      by blast
    then have "a # xs = (a # ys) @ z # zs \<and> q \<in> set (f z) \<and> P q
               \<and> (\<forall>y \<in> set (a # ys). \<forall>x \<in> set (f y). \<not> P x)"
      using no by simp
    then show ?thesis by blast
  next
    case (Some x)
    then have "q = x" using Cons.prems by (simp add: find_append)
    then have "q \<in> set (f a) \<and> P q" using Some by (auto simp: find_Some_iff)
    then have "a # xs = [] @ a # xs \<and> q \<in> set (f a) \<and> P q
               \<and> (\<forall>y \<in> set []. \<forall>x \<in> set (f y). \<not> P x)"
      by simp
    then show ?thesis by blast
  qed
qed

lemma upto_split_before:
  assumes "[a..b] = ys @ z # zs" and "a \<le> k" and "k < z"
  shows "k \<in> set ys"
proof -
  have zin: "z \<in> set [a..b]" using assms(1) by simp
  then have "k \<in> set [a..b]" using assms(2,3) by simp
  then have "k \<in> set (ys @ z # zs)" by (simp only: assms(1))
  then have "k \<in> set ys \<or> k = z \<or> k \<in> set zs" by auto
  moreover have "sorted (ys @ z # zs)" using assms(1) sorted_upto[of a b] by simp
  then have "\<forall>x \<in> set zs. z \<le> x" by (simp add: sorted_append)
  ultimately show ?thesis using assms(3) by auto
qed

lemma findNearestValidPosition_walkable:
  assumes "findNearestValidPosition pf p gridRows gridCols = Some q"
  shows "q = plainPos (row q) (col q) \<and> isValidGridPosition (row q) (col q) gridRows gridCols
         \<and> gridWalkable pf (row q) (col q)"
proof (cases "isValidGridPosition (row p) (col p) gridRows gridCols \<and> gridWalkable pf (row p) (col p)")
  case True
  then have "q = plainPos (row p) (col p)"
    using assms by (simp add: findNearestValidPosition_def)
  then show ?thesis using True by (simp add: plainPos_def)
next
  case False
  let ?P = "\<lambda>(r, c). isValidGridPosition r c gridRows gridCols \<and> gridWalkable pf r c"
  let ?f = "\<lambda>radius. map (\<lambda>(dr, dc). (row p + dr, col p + dc)) (ring radius)"
  obtain qr qc where fnd: "find ?P (concat (map ?f [1..max gridRows gridCols])) = Some (qr, qc)"
    and q: "q = plainPos qr qc"
    using assms False by (auto simp: findNearestValidPosition_def split: option.splits)
  from fnd have "?P (qr, qc)" by (auto simp: find_Some_iff)
  then show ?thesis using q by (simp add: plainPos_def)
qed

lemma findNearestValidPosition_nearest:
  assumes found: "findNearestValidPosition pf p gridRows gridCols = Some q"
    and ok: "isValidGridPosition r c gridRows gridCols" "gridWalkable pf r c"
  shows "chebyshev (row p, col p) (row q, col q) \<le> chebyshev (row p, col p) (r, c)"
proof (cases "isValidGridPosition (row p) (col p) gridRows gridCols \<and> gridWalkable pf (row p) (col p)")
  case True
  then have "q = plainPos (row p) (col p)"
    using found by (simp add: findNearestValidPosition_def)
  then show ?thesis by (simp add: plainPos_def chebyshev_def)
next
  case False
  let ?P = "\<lambda>(r, c). isValidGridPosition r c gridRows gridCols \<and> gridWalkable pf r c"
  let ?f = "\<lambda>radius. map (\<lambda>(dr, dc). (row p + dr, col p + dc)) (ring radius)"
  obtain qr qc where fnd: "find ?P (concat (map ?f [1..max gridRows gridCols])) = Some (qr, qc)"
    and q: "q = plainPos qr qc"
    using found False by (auto simp: findNearestValidPosition_def split: option.splits)
  from find_concat[OF fnd] obtain ys z zs where
    split: "[1..max gridRows gridCols] = ys @ z # zs"
    and qin: "(qr, qc) \<in> set (?f z)"
    and before: "\<forall>y \<in> set ys. \<forall>x \<in> set (?f y). \<not> ?P x"
    by blast
  have dq: "chebyshev (row p, col p) (qr, qc) = z"
    using qin by (auto simp: ring_iff chebyshev_def)
  have "z \<le> chebyshev (row p, col p) (r, c)"
  proof (rule ccontr)
    assume "\<not> z \<le> chebyshev (row p, col p) (r, c)"
    then have lt: "chebyshev (row p, col p) (r, c) < z" by simp
    let ?k = "chebyshev (row p, col p) (r, c)"
    have "?k \<noteq> 0"
    proof
      assume "?k = 0"
      then have "r = row p \<and> c = col p" by (auto simp: chebyshev_def max_def split: if_splits)
      then show False using False ok by simp
    qed
    moreover have "0 \<le> ?k" by (simp add: chebyshev_def)
    ultimately have "1 \<le> ?k" by simp
    from upto_split_before[OF split this lt] have kin: "?k \<in> set ys" .
    have "(r - row p, c - col p) \<in> set (ring ?k)"
      by (simp add: ring_iff chebyshev_def)
    then have "(row p + (r - row p), col p + (c - col p)) \<in> set (?f ?k)"
      by (metis (no_types, lifting) image_eqI set_map case_prod_conv)
    then have "(r, c) \<in> set (?f ?k)" by simp
    then have "\<not> ?P (r, c)" using before kin by blast
    then show False using ok by simp
  qed
  then show ?thesis using dq q by (simp add: plainPos_def)
qed

lemma fold_roads_ignores_directions:
  "fold (\<lambda>(k, rd) g'. case k of (r, c) \<Rightarrow>
           if isValidGridPosition r c gridRows gridCols then setWalkableAt g' c r True else g')
        (map (\<lambda>(k, rd). (k, rd\<lparr> directions := f k rd \<rparr>)) roads) g
   = fold (\<lambda>(k, rd) g'. case k of (r, c) \<Rightarrow>
           if isValidGridPosition r c gridRows gridCols then setWalkableAt g' c r True else g')
        roads g"
  by (induction roads arbitrary: g) auto

lemma rowRoads_query:
  "findPathWithEntrances (updateGrid newPathFinder rowRoads (Some []) 3 3)
      (exteriorPos 0 3 SideRight) (exteriorPos 0 (- 1) SideLeft) 3 3
     = Some [plainPos 0 2, plainPos 0 1, plainPos 0 0]"
  by code_simp

lemma bendRoads_query:
  "findPathWithEntrances (updateGrid newPathFinder bendRoads (Some []) 3 3)
      (exteriorPos 1 (- 1) SideLeft) (exteriorPos 1 3 SideRight) 3 3
     = Some [plainPos 0 0, plainPos 1 0, plainPos 1 1, plainPos 1 2]"
  by code_simp

lemma bendRoads_neighbour_walkable:
  "gridWalkable (updateGrid newPathFinder bendRoads (Some []) 3 3) 1 0"
  by code_simp

text \<open>
  C2. The pathfinding grid is built from the road cells alone: the direction list of
  a road is never read, so any two road maps that differ only in directions give the
  same grid. On the row of three roads whose middle road is annotated \<open>[RIGHT]\<close>, the
  query from the right edge to the left edge returns the path
  \<open>(0,2), (0,1), (0,0)\<close>, which leaves the annotated road \<open>(0,1)\<close> for its left
  neighbour, although the road's own connection list holds its right neighbour only.
\<close>

theorem restricted_road_left_step:
  "findPathWithEntrances (updateGrid newPathFinder rowRoads (Some []) 3 3)
      (exteriorPos 0 3 SideRight) (exteriorPos 0 (- 1) SideLeft) 3 3
     = Some [plainPos 0 2, plainPos 0 1, plainPos 0 0]
   \<and> map_of rowRoads (0, 1) = Some \<lparr> rd_row = 0, rd_col = 1, directions = [RIGHT] \<rparr>
   \<and> getPathfindingConnections \<lparr> rd_row = 0, rd_col = 1, directions = [RIGHT] \<rparr> = [(0, 2, Some RIGHT)]
   \<and> updateGrid pf (map (\<lambda>(k, rd). (k, rd\<lparr> directions := f k rd \<rparr>)) roads) obstacles gridRows gridCols
       = updateGrid pf roads obstacles gridRows gridCols"
proof (intro conjI)
  show "findPathWithEntrances (updateGrid newPathFinder rowRoads (Some []) 3 3)
      (exteriorPos 0 3 SideRight) (exteriorPos 0 (- 1) SideLeft) 3 3
     = Some [plainPos 0 2, plainPos 0 1, plainPos 0 0]"
    by (rule rowRoads_query)
  show "map_of rowRoads (0, 1) = Some \<lparr> rd_row = 0, rd_col = 1, directions = [RIGHT] \<rparr>"
    by (simp add: rowRoads_def mkRoad_def)
  show "getPathfindingConnections \<lparr> rd_row = 0, rd_col = 1, directions = [RIGHT] \<rparr> = [(0, 2, Some RIGHT)]"
    by (simp add: getPathfindingConnections_def getPositionInDirection_def)
  show "updateGrid pf (map (\<lambda>(k, rd). (k, rd\<lparr> directions := f k rd \<rparr>)) roads) obstacles gridRows gridCols
       = updateGrid pf roads obstacles gridRows gridCols"
    unfolding updateGrid_def fold_roads_ignores_directions ..
qed

theorem restricted_road_left_step_witness:
  "findPathWithEntrances
      (updateGrid newPathFinder (map (\<lambda>(k, rd). (k, rd\<lparr> directions := [] \<rparr>)) rowRoads) (Some []) 3 3)
      (exteriorPos 0 3 SideRight) (exteriorPos 0 (- 1) SideLeft) 3 3
     = Some [plainPos 0 2, plainPos 0 1, plainPos 0 0]"
  using restricted_road_left_step [of newPathFinder "\<lambda>k rd. []" rowRoads "Some []" 3 3]
  by simp

lemma bendRoads_nearest:
  "findNearestValidPosition (updateGrid newPathFinder bendRoads (Some []) 3 3)
      (exteriorPos 1 (- 1) SideLeft) 3 3 = Some (plainPos 0 0)"
  by code_simp

text \<open>
  C6. The interior endpoint of a path from an exterior entrance is not always the
  interior cell next to the entrance. With roads at \<open>(0,0)\<close>, \<open>(1,0)\<close>, \<open>(1,1)\<close>,
  \<open>(1,2)\<close> and the entrance left of row 1, the only neighbour of the entrance inside
  the grid is \<open>(1,0)\<close>, and it is walkable. The search for the nearest valid position
  nevertheless answers \<open>(0,0)\<close>, which is not a neighbour of the entrance: the ring
  of radius 1 is scanned row by row, so the diagonal cell of the row above is met
  first. The returned path starts at \<open>(0,0)\<close>.
\<close>

theorem entrance_replaced_by_diagonal_cell:
  "findNearestValidPosition (updateGrid newPathFinder bendRoads (Some []) 3 3)
      (exteriorPos 1 (- 1) SideLeft) 3 3 = Some (plainPos 0 0)
   \<and> findPathWithEntrances (updateGrid newPathFinder bendRoads (Some []) 3 3)
        (exteriorPos 1 (- 1) SideLeft) (exteriorPos 1 3 SideRight) 3 3
       = Some [plainPos 0 0, plainPos 1 0, plainPos 1 1, plainPos 1 2]
   \<and> gridWalkable (updateGrid newPathFinder bendRoads (Some []) 3 3) 1 0
   \<and> filter (\<lambda>(r, c). isValidGridPosition r c 3 3) (getAdjacentPositions 1 (- 1)) = [(1, 0)]
   \<and> (0, 0) \<notin> set (getAdjacentPositions 1 (- 1))"
  by (simp add: bendRoads_nearest bendRoads_query bendRoads_neighbour_walkable
      getAdjacentPositions_def isValidGridPosition_def)

theorem entrance_replaced_by_diagonal_cell_witness:
  "map_option hd (findPathWithEntrances (updateGrid newPathFinder bendRoads (Some []) 3 3)
        (exteriorPos 1 (- 1) SideLeft) (exteriorPos 1 3 SideRight) 3 3) = Some (plainPos 0 0)
   \<and> plainPos 0 0 \<noteq> plainPos 1 0"
  using entrance_replaced_by_diagonal_cell by (simp add: plainPos_def)

section \<open>Properties of the vehicle state machine\<close>

lemma carUpdate_waiting_no_path:
  assumes c: "objects w i = Some c" and s: "state c = WAITING" and p: "path c = []"
    and d: "waitTime c + delta \<le> maxWaitTime"
  shows "\<exists>c'. objects (carUpdate w i time delta) i = Some c' \<and> state c' = WAITING \<and> path c' = []
           \<and> waitTime c' = (if 2000 < waitTime c + delta then 0 else waitTime c + delta)
           \<and> totalWaitTime c' = totalWaitTime c + delta"
  using c s p d
  by (simp add: carUpdate_def updateWaiting_def withCar_def Let_def)

lemma carUpdate_waiting_timeout:
  assumes c: "objects w i = Some c" and s: "state c = WAITING" and p: "path c = []"
    and d: "maxWaitTime < waitTime c + delta"
  shows "\<exists>c'. objects (carUpdate w i time delta) i = Some c' \<and> state c' = FAILED"
  using c s p d
  by (simp add: carUpdate_def updateWaiting_def withCar_def Let_def triggerFailure_def
      handleCarFailed_def maxWaitTime_def split: option.splits)

lemma waiting_forever:
  assumes "objects w i = Some c" "state c = WAITING" "path c = []" "waitTime c \<le> 2000"
    and "\<forall>t \<in> set ticks. 0 \<le> snd t \<and> snd t \<le> 8000"
  shows "\<exists>c'. objects (fold (\<lambda>t w'. carUpdate w' i (fst t) (snd t)) ticks w) i = Some c'
          \<and> state c' = WAITING \<and> path c' = [] \<and> waitTime c' \<le> 2000
          \<and> totalWaitTime c' = totalWaitTime c + sum_list (map snd ticks)"
  using assms
proof (induction ticks arbitrary: w c)
  case Nil
  then show ?case by simp
next
  case (Cons t ticks)
  let ?w = "carUpdate w i (fst t) (snd t)"
  have dt: "0 \<le> snd t" "snd t \<le> 8000" using Cons.prems(5) by simp_all
  have le: "waitTime c + snd t \<le> maxWaitTime"
    using Cons.prems(4) dt by (simp add: maxWaitTime_def)
  from carUpdate_waiting_no_path[OF Cons.prems(1,2,3) le, of "fst t"]
  obtain c1 where c1: "objects ?w i = Some c1" and s1: "state c1 = WAITING" and p1: "path c1 = []"
    and w1: "waitTime c1 = (if 2000 < waitTime c + snd t then 0 else waitTime c + snd t)"
    and t1: "totalWaitTime c1 = totalWaitTime c + snd t"
    by blast
  have w1': "waitTime c1 \<le> 2000" using w1 by (simp split: if_splits)
  have rest: "\<forall>t \<in> set ticks. 0 \<le> snd t \<and> snd t \<le> 8000" using Cons.prems(5) by simp
  from Cons.IH[OF c1 s1 p1 w1' rest] obtain c' where
    "objects (fold (\<lambda>t w'. carUpdate w' i (fst t) (snd t)) ticks ?w) i = Some c'"
    "state c' = WAITING" "path c' = []" "waitTime c' \<le> 2000"
    "totalWaitTime c' = totalWaitTime c1 + sum_list (map snd ticks)"
    by blast
  then show ?case using t1 by simp
qed

lemma strandedWorld_car:
  "map_option (\<lambda>c. (state c, path c, waitTime c, totalWaitTime c)) (objects strandedWorld 1)
     = Some (WAITING, [], 0, 0)"
  by code_simp

lemma elevenSeconds_sum: "sum_list (map snd elevenSeconds) = 11000"
  by code_simp

lemma elevenSeconds_bounds: "\<forall>t \<in> set elevenSeconds. 0 \<le> snd t \<and> snd t \<le> 8000"
  by code_simp

text \<open>
  C3. The code does not do what the claim says. A waiting car without a path is
  failed in a frame only if its wait timer, after the frame's delta is added, exceeds
  10000 ms in that same frame; and the timer is set back to 0 in every frame in which
  it exceeds 2000 ms. So whenever no single frame lasts longer than 8000 ms, the car
  is still waiting after any number of frames, while the time it has waited in
  total grows without bound.
\<close>

theorem waiting_car_never_fails:
  assumes "objects w i = Some c" and "state c = WAITING" and "path c = []"
    and "waitTime c \<le> 2000"
    and "\<forall>t \<in> set ticks. 0 \<le> snd t \<and> snd t \<le> 8000"
  shows "\<exists>c'. objects (fold (\<lambda>t w'. carUpdate w' i (fst t) (snd t)) ticks w) i = Some c'
          \<and> state c' = WAITING
          \<and> totalWaitTime c' = totalWaitTime c + sum_list (map snd ticks)"
  using waiting_forever[OF assms] by blast

theorem waiting_car_never_fails_witness:
  "(\<exists>c'. objects (fold (\<lambda>t w'. carUpdate w' 1 (fst t) (snd t)) elevenSeconds strandedWorld) 1 = Some c'
          \<and> state c' = WAITING \<and> totalWaitTime c' = 11000)
   \<and> maxWaitTime < 11000"
proof -
  obtain c where c: "objects strandedWorld 1 = Some c"
    and p: "state c = WAITING" "path c = []" "waitTime c = 0" "totalWaitTime c = 0"
    using strandedWorld_car by auto
  have "waitTime c \<le> 2000" using p by simp
  from waiting_car_never_fails[OF c p(1,2) this elevenSeconds_bounds]
  show ?thesis using p elevenSeconds_sum by (simp add: maxWaitTime_def)
qed

section \<open>Properties of the collision check\<close>

lemma blockedWorld_cars:
  "carPos blockedWorld 1 = Some (1, 0, MOVING) \<and> carPos blockedWorld 2 = Some (1, 1, WAITING)"
  by code_simp

lemma blockedWorld_index: "map_of (carsByPosition blockedWorld) (1, 1) = Some [2]"
  by code_simp

lemma blockedWorld_next:
  "map_option (\<lambda>c. path c ! pathIndex c) (objects blockedWorld 1) = Some (plainPos 1 1)"
  by code_simp

lemma blockedWorld_listener: "fst (handleCollisionCheck blockedWorld 1 (plainPos 1 1)) = True"
  by code_simp

lemma blockedWorld_decision:
  "map_option (\<lambda>c. (state c, currentTween c, blockedBy c)) (objects (step blockedWorld (Update 5632 16)) 1)
     = Some (MOVING, Some (plainPos 1 1), Some 2)"
  by code_simp

lemma blockedWorld_collision:
  "carPos (run blockedWorld [Update 5632 16, TweenComplete 1]) 1 = Some (1, 1, MOVING)
   \<and> carPos (run blockedWorld [Update 5632 16, TweenComplete 1]) 2 = Some (1, 1, WAITING)"
  by code_simp

text \<open>
  C1. The code does not do what the claim says. The collision check of a car never
  answers true, whatever the scheduler's listener finds. In the run described at
  \<open>blockedWorld\<close> the red car stands on \<open>(1,0)\<close> with \<open>(1,1)\<close> next on its path,
  the blue car waits on \<open>(1,1)\<close> and the occupancy index records it there; the
  listener answers that the cell is taken and notes the blue car as the blocker,
  yet in the next frame the red car stays in state Moving and starts its move, and
  when the tween ends both live cars have \<open>(1,1)\<close> as their position.
\<close>

theorem occupied_cell_is_entered:
  "fst (checkCollision w i targetCell) = False
   \<and> carPos blockedWorld 1 = Some (1, 0, MOVING)
   \<and> carPos blockedWorld 2 = Some (1, 1, WAITING)
   \<and> map_of (carsByPosition blockedWorld) (1, 1) = Some [2]
   \<and> map_option (\<lambda>c. path c ! pathIndex c) (objects blockedWorld 1) = Some (plainPos 1 1)
   \<and> fst (handleCollisionCheck blockedWorld 1 (plainPos 1 1)) = True
   \<and> map_option (\<lambda>c. (state c, currentTween c, blockedBy c))
        (objects (step blockedWorld (Update 5632 16)) 1)
       = Some (MOVING, Some (plainPos 1 1), Some 2)
   \<and> carPos (run blockedWorld [Update 5632 16, TweenComplete 1]) 1 = Some (1, 1, MOVING)
   \<and> carPos (run blockedWorld [Update 5632 16, TweenComplete 1]) 2 = Some (1, 1, WAITING)"
  using blockedWorld_cars blockedWorld_index blockedWorld_next blockedWorld_listener
    blockedWorld_decision blockedWorld_collision
  by (simp add: checkCollision_def)

section \<open>Properties of the dirty flag and the path request\<close>

lemma setWalkableAt_simps [simp]:
  "g_width (setWalkableAt g x y b) = g_width g"
  "g_height (setWalkableAt g x y b) = g_height g"
  "g_walkable (setWalkableAt g x y b) n = (if n = (x, y) then b else g_walkable g n)"
  by (simp_all add: setWalkableAt_def)









































































end
